theory Spec2Isabelle
  imports Complex_Main "HOL-Library.Sublist" "HOL-Library.AList"
begin

section \<open>Strings\<close>

text \<open>
  Python strings are modelled as \<open>string\<close> (a list of characters). Two operations of the
  source are needed: the substring test \<^verbatim>\<open>sub in s\<close> and \<^verbatim>\<open>s.lower()\<close>, which is
  modelled on the ASCII letters; other characters are left alone. The strings searched for
  in a lower-cased text are ASCII words.
\<close>

fun starts_with :: "string \<Rightarrow> string \<Rightarrow> bool" where
  "starts_with [] s = True"
| "starts_with (p # ps) [] = False"
| "starts_with (p # ps) (c # cs) = (p = c \<and> starts_with ps cs)"

fun str_in :: "string \<Rightarrow> string \<Rightarrow> bool" where
  "str_in sub [] = (sub = [])"
| "str_in sub (c # cs) = (starts_with sub (c # cs) \<or> str_in sub cs)"

definition lower_char :: "char \<Rightarrow> char" where
  "lower_char c =
     (if 65 \<le> (of_char c :: nat) \<and> (of_char c :: nat) \<le> 90
      then char_of ((of_char c :: nat) + 32) else c)"

definition str_lower :: "string \<Rightarrow> string" where
  "str_lower s = map lower_char s"

definition digit_char :: "nat \<Rightarrow> char" where
  "digit_char d = char_of (48 + d)"

fun string_of_nat :: "nat \<Rightarrow> string" where
  "string_of_nat n =
     (if n < 10 then [digit_char n] else string_of_nat (n div 10) @ [digit_char (n mod 10)])"

declare string_of_nat.simps [simp del]

definition string_of_int :: "int \<Rightarrow> string" where
  "string_of_int i = (if i < 0 then CHR ''-'' # string_of_nat (nat (- i)) else string_of_nat (nat i))"

text \<open>A Python dict literal with string keys, and \<^verbatim>\<open>d.get(k, default)\<close>.\<close>

definition dict_get :: "(string \<times> 'v) list \<Rightarrow> string \<Rightarrow> 'v \<Rightarrow> 'v" where
  "dict_get d k dflt = (case map_of d k of Some v \<Rightarrow> v | None \<Rightarrow> dflt)"

section \<open>The synthetic generator (generate_expanded_data.py)\<close>

subsection \<open>The random source\<close>

text \<open>
  The module seeds Python's process-wide \<^verbatim>\<open>random\<close> generator once
  (\<^verbatim>\<open>random.seed(42)\<close>) and every later call, in \<^verbatim>\<open>generate_attack_record\<close> and in
  \<^verbatim>\<open>generate_timestamp\<close> alike, draws from that one generator. The generator's state is
  modelled as an arbitrary infinite sequence of raw draws together with a cursor; each
  library call consumes one raw draw and reduces it into the range of that call. The
  Mersenne Twister itself is library code and is not modelled: every statement below
  holds for every sequence of raw draws.
\<close>

type_synonym rng = "(nat \<Rightarrow> nat) \<times> nat"

definition raw_at :: "rng \<Rightarrow> nat \<Rightarrow> nat" where
  "raw_at g k = fst g (snd g + k)"

definition next_raw :: "rng \<Rightarrow> nat \<times> rng" where
  "next_raw g = (fst g (snd g), (fst g, Suc (snd g)))"

definition unit_float :: "nat \<Rightarrow> real" where
  \<comment> \<open>a float in [0, 1) with 53 random bits\<close>
  "unit_float r = real (r mod 2 ^ 53) / 2 ^ 53"

definition py_random :: "rng \<Rightarrow> real \<times> rng" where
  "py_random g = (let (r, g') = next_raw g in (unit_float r, g'))"

definition py_uniform :: "real \<Rightarrow> real \<Rightarrow> rng \<Rightarrow> real \<times> rng" where
  "py_uniform a b g = (let (u, g') = py_random g in (a + (b - a) * u, g'))"

definition py_randint :: "int \<Rightarrow> int \<Rightarrow> rng \<Rightarrow> int \<times> rng" where
  \<comment> \<open>\<^verbatim>\<open>random.randint(a, b)\<close>: \<^verbatim>\<open>a + randbelow(b - a + 1)\<close>, both ends included\<close>
  "py_randint a b g = (let (r, g') = next_raw g in (a + int (r mod nat (b - a + 1)), g'))"

definition py_choice :: "'a list \<Rightarrow> rng \<Rightarrow> 'a \<times> rng" where
  \<comment> \<open>\<^verbatim>\<open>random.choice(seq)\<close>: \<^verbatim>\<open>seq[randbelow(len(seq))]\<close>\<close>
  "py_choice xs g = (let (r, g') = next_raw g in (xs ! (r mod length xs), g'))"

fun accumulate :: "real \<Rightarrow> real list \<Rightarrow> real list" where
  "accumulate acc [] = []"
| "accumulate acc (w # ws) = (acc + w) # accumulate (acc + w) ws"

definition bisect :: "real list \<Rightarrow> real \<Rightarrow> nat \<Rightarrow> nat" where
  \<comment> \<open>\<^verbatim>\<open>bisect_right(a, x, 0, hi)\<close> on a non-decreasing list\<close>
  "bisect a x hi = length (takeWhile (\<lambda>e. e \<le> x) (take hi a))"

definition py_choices :: "'a list \<Rightarrow> real list \<Rightarrow> rng \<Rightarrow> 'a \<times> rng" where
  \<comment> \<open>\<^verbatim>\<open>random.choices(population, weights=w, k=1)[0]\<close>\<close>
  "py_choices xs ws g =
     (let cum_weights = accumulate 0 ws;
          total = last cum_weights;
          (u, g') = py_random g
      in (xs ! bisect cum_weights (u * total) (length xs - 1), g'))"

subsection \<open>Vocabularies and tables\<close>

definition MAJOR_COUNTRIES :: "(string \<times> real) list" where
  "MAJOR_COUNTRIES =
    [(''USA'', 7/2), (''China'', 7/2), (''Russia'', 3), (''UK'', 5/2), (''Germany'', 5/2),
     (''France'', 5/2), (''India'', 5/2), (''Japan'', 2), (''South Korea'', 2),
     (''Brazil'', 2), (''Canada'', 2), (''Australia'', 2), (''Italy'', 2),
     (''Spain'', 2), (''Netherlands'', 2), (''Poland'', 3/2), (''Sweden'', 3/2),
     (''Belgium'', 3/2), (''Switzerland'', 3/2), (''Israel'', 3/2), (''Turkey'', 3/2)]"

definition COUNTRIES :: "string list" where
  "COUNTRIES =
    [''USA'', ''UK'', ''Germany'', ''France'', ''China'', ''India'', ''Brazil'', ''Russia'',
     ''Australia'', ''Canada'', ''Japan'', ''South Korea'', ''Mexico'', ''Italy'', ''Spain'',
     ''Netherlands'', ''Singapore'', ''UAE'', ''Saudi Arabia'', ''Turkey'', ''Poland'',
     ''Sweden'', ''Norway'', ''Denmark'', ''Finland'', ''Belgium'', ''Switzerland'',
     ''Argentina'', ''Chile'', ''Colombia'', ''Peru'', ''Indonesia'', ''Thailand'',
     ''Vietnam'', ''Philippines'', ''Malaysia'', ''Pakistan'', ''Bangladesh'', ''Egypt'',
     ''Nigeria'', ''South Africa'', ''Kenya'', ''Morocco'', ''Israel'', ''New Zealand'']"

definition ATTACK_TYPES :: "string list" where
  "ATTACK_TYPES =
    [''Malware'', ''Ransomware'', ''Phishing'', ''DDoS'', ''SQL Injection'',
     ''Man-in-the-Middle'', ''Zero-Day Exploit'', ''Brute Force'',
     ''Cross-Site Scripting'', ''Password Attack'', ''DNS Spoofing'',
     ''Session Hijacking'', ''Trojan'', ''Spyware'', ''Backdoor'',
     ''APT'', ''Cryptojacking'', ''IoT Attack'', ''Supply Chain Attack'',
     ''Business Email Compromise'', ''Credential Stuffing'', ''Rootkit'', ''Worm'']"

definition TARGET_INDUSTRIES :: "string list" where
  "TARGET_INDUSTRIES =
    [''Finance'', ''Healthcare'', ''Government'', ''Retail'', ''Education'',
     ''Technology'', ''Manufacturing'', ''Energy'', ''Telecommunications'',
     ''Transportation'', ''Media'', ''Legal'', ''Insurance'', ''Real Estate'',
     ''Hospitality'', ''Agriculture'', ''Defense'', ''Aerospace'']"

definition TARGET_SYSTEMS :: "string list" where
  "TARGET_SYSTEMS =
    [''Web Server'', ''Database'', ''Email Server'', ''File Server'',
     ''Application Server'', ''Cloud Storage'', ''Network Router'',
     ''Firewall'', ''VPN Gateway'', ''DNS Server'', ''Active Directory'',
     ''IoT Device'', ''Mobile App'', ''Desktop Application'', ''API Gateway'']"

definition ATTACK_SOURCES :: "string list" where
  "ATTACK_SOURCES =
    [''Hacker Group'', ''Nation State'', ''Insider Threat'', ''Cybercriminal'',
     ''Hacktivist'', ''Bot Network'', ''Script Kiddie'', ''APT Group'',
     ''Organized Crime'', ''Competitor'', ''Disgruntled Employee'']"

definition SECURITY_VULNERABILITIES :: "string list" where
  "SECURITY_VULNERABILITIES =
    [''Unpatched Software'', ''Weak Password'', ''Misconfiguration'',
     ''Social Engineering'', ''Zero-Day'', ''SQL Injection'', ''XSS'',
     ''Default Credentials'', ''Missing Encryption'', ''Open Port'',
     ''Outdated Protocol'', ''Poor Access Control'', ''No MFA'',
     ''Unsecured API'', ''Legacy System'']"

definition DEFENSE_MECHANISMS :: "string list" where
  "DEFENSE_MECHANISMS =
    [''Firewall'', ''IDS/IPS'', ''Antivirus'', ''WAF'', ''DLP'', ''SIEM'',
     ''Endpoint Protection'', ''Network Segmentation'', ''MFA'',
     ''Encryption'', ''Patch Management'', ''Access Control'',
     ''Security Monitoring'', ''Threat Intelligence'', ''VPN'']"

definition ACTION_TAKEN :: "string list" where
  "ACTION_TAKEN =
    [''Blocked'', ''Quarantined'', ''Logged'', ''Alerted'', ''Isolated'',
     ''Patched'', ''Investigated'', ''Remediated'', ''Escalated'',
     ''Monitored'', ''Contained'', ''Restored'']"

definition severity_weights :: "(string \<times> int \<times> int) list" where
  "severity_weights =
    [(''Ransomware'', (7, 10)),
     (''Zero-Day Exploit'', (8, 10)),
     (''APT'', (8, 10)),
     (''Supply Chain Attack'', (7, 10)),
     (''Rootkit'', (7, 9)),
     (''SQL Injection'', (6, 9)),
     (''Malware'', (5, 9)),
     (''Worm'', (5, 8)),
     (''Backdoor'', (6, 9)),
     (''DDoS'', (4, 8)),
     (''Trojan'', (5, 8)),
     (''IoT Attack'', (4, 7)),
     (''Cryptojacking'', (3, 6)),
     (''Phishing'', (3, 7)),
     (''Business Email Compromise'', (5, 8)),
     (''Credential Stuffing'', (4, 7)),
     (''Brute Force'', (3, 6)),
     (''Spyware'', (4, 7))]"

definition industry_user_multiplier :: "(string \<times> int) list" where
  "industry_user_multiplier =
    [(''Finance'', 10), (''Healthcare'', 8), (''Government'', 15),
     (''Retail'', 20), (''Education'', 12), (''Technology'', 5)]"

subsection \<open>Timestamps\<close>

text \<open>
  An instant is the number of seconds after \<^verbatim>\<open>START_DATE\<close> (2019-01-01 00:00:00).
  \<^verbatim>\<open>END_DATE - START_DATE\<close> is 2191 days; the calendar year of an instant in that span
  is read off the day number (2020 and 2024 are leap years).
\<close>

definition total_seconds :: int where
  "total_seconds = 2191 * 86400"

definition year_of :: "int \<Rightarrow> int" where
  "year_of t =
     (let d = t div 86400
      in if d < 365 then 2019 else if d < 731 then 2020 else if d < 1096 then 2021
         else if d < 1461 then 2022 else if d < 1826 then 2023 else 2024)"

definition generate_timestamp :: "rng \<Rightarrow> int \<times> rng" where
  "generate_timestamp g = (let (random_offset, g') = py_randint 0 total_seconds g in (random_offset, g'))"

subsection \<open>One record\<close>

record attack_record =
  timestamp :: int
  year :: int
  location :: string
  attack_type :: string
  target_industry :: string
  target_system :: string
  attack_severity :: int
  attack_duration_min :: real
  data_compromised_GB :: real
  financial_impact_USD :: real
  response_time_min :: real
  mitigation_method :: string
  outcome :: string
  attack_vector :: string
  attacker_origin :: string
  affected_users :: int

text \<open>
  Floating-point fields are computed over the reals; \<^verbatim>\<open>round(x, 2)\<close> rounds to the
  nearest hundredth, ties to even, and \<^verbatim>\<open>int(x)\<close> truncates towards zero.
\<close>

definition round_half_even :: "real \<Rightarrow> int" where
  "round_half_even y =
     (let f = \<lfloor>y\<rfloor>
      in if y - of_int f < 1/2 then f else if y - of_int f > 1/2 then f + 1
         else if even f then f else f + 1)"

definition round2 :: "real \<Rightarrow> real" where
  "round2 x = of_int (round_half_even (x * 100)) / 100"

definition py_int :: "real \<Rightarrow> int" where
  "py_int x = (if 0 \<le> x then \<lfloor>x\<rfloor> else \<lceil>x\<rceil>)"

definition attacker_origin_of :: "string \<Rightarrow> string" where
  "attacker_origin_of attack_source =
     (if \<not> str_in ''Insider'' attack_source then ''External'' else ''Internal'')"

definition outcome_of :: "string \<Rightarrow> string" where
  "outcome_of action =
     (if action \<in> set [''Blocked'', ''Quarantined'', ''Contained''] then ''Mitigated''
      else if action \<in> set [''Logged'', ''Monitored''] then ''Detected''
      else ''Resolved'')"

text \<open>
  The blocks of \<^verbatim>\<open>generate_attack_record\<close>, in source order. Each takes the
  generator state and returns the value computed together with the state after its draws.
\<close>

definition draw_country :: "rng \<Rightarrow> string \<times> rng" where
  \<comment> \<open>weighted country selection\<close>
  "draw_country g0 =
     (let (u, g1) = py_random g0
      in if u < 7/10
         then py_choices COUNTRIES (map (\<lambda>c. dict_get MAJOR_COUNTRIES c (1/2)) COUNTRIES) g1
         else py_choice COUNTRIES g1)"

definition draw_severity :: "string \<Rightarrow> rng \<Rightarrow> int \<times> rng" where
  "draw_severity atype g =
     (let severity_range = dict_get severity_weights atype (3, 8)
      in py_randint (fst severity_range) (snd severity_range) g)"

definition draw_financial_loss :: "int \<Rightarrow> rng \<Rightarrow> real \<times> rng" where
  "draw_financial_loss severity g0 =
     (let (base_loss, g1) = py_uniform 1000 50000 g0;
          (jitter, g2) = py_uniform (1/2) 2 g1
      in (base_loss * (of_int severity / 5) * jitter, g2))"

definition draw_affected_users :: "string \<Rightarrow> rng \<Rightarrow> int \<times> rng" where
  "draw_affected_users industry g0 =
     (let multiplier = dict_get industry_user_multiplier industry 7;
          (n, g1) = py_randint 10 500 g0;
          (j, g2) = py_uniform (1/2) (3/2) g1
      in (py_int (of_int (n * multiplier) * j), g2))"

definition draw_resolution_time :: "int \<Rightarrow> rng \<Rightarrow> real \<times> rng" where
  "draw_resolution_time severity g0 =
     (let (base_resolution, g1) = py_uniform 2 72 g0;
          (factor, g2) =
            (if severity \<ge> 8 then py_uniform (3/10) (7/10) g1
             else if severity \<ge> 5 then py_uniform (6/10) (12/10) g1
             else py_uniform 1 (18/10) g1)
      in (base_resolution * factor, g2))"

definition draw_data_loss :: "string \<Rightarrow> int \<Rightarrow> rng \<Rightarrow> real \<times> rng" where
  "draw_data_loss atype severity g =
     (if atype \<in> set [''Ransomware'', ''SQL Injection'', ''Supply Chain Attack'', ''APT'']
      then (let (x, g') = py_uniform 1 100 g in (x * (of_int severity / 3), g'))
      else if atype \<in> set [''Business Email Compromise'', ''Credential Stuffing'']
      then (let (x, g') = py_uniform (1/2) 20 g in (x * (of_int severity / 4), g'))
      else if atype \<in> set [''DDoS'', ''Brute Force'', ''Cryptojacking'']
      then py_uniform (1/10) 5 g
      else if atype \<in> set [''Backdoor'', ''Rootkit'', ''Trojan'', ''Spyware'']
      then (let (x, g') = py_uniform 5 80 g in (x * (of_int severity / 4), g'))
      else (let (x, g') = py_uniform (1/2) 50 g in (x * (of_int severity / 5), g')))"

definition draw_attack_duration :: "string \<Rightarrow> rng \<Rightarrow> real \<times> rng" where
  "draw_attack_duration atype g =
     (if atype \<in> set [''DDoS'', ''Ransomware'', ''Worm''] then py_uniform 30 180 g
      else if atype \<in> set [''APT'', ''Supply Chain Attack'', ''Rootkit''] then py_uniform 60 240 g
      else if atype \<in> set [''Cryptojacking'', ''IoT Attack''] then py_uniform 120 300 g
      else if atype \<in> set [''Phishing'', ''Business Email Compromise''] then py_uniform 5 30 g
      else py_uniform 10 90 g)"

definition generate_attack_record :: "rng \<Rightarrow> attack_record \<times> rng" where
  "generate_attack_record g0 =
    (let (country, g2) = draw_country g0;
         (year_drawn, g3) = py_randint 2019 2024 g2;
         (atype, g4) = py_choice ATTACK_TYPES g3;
         (industry, g5) = py_choice TARGET_INDUSTRIES g4;
         (tsystem, g6) = py_choice TARGET_SYSTEMS g5;
         (severity, g7) = draw_severity atype g6;
         (financial_loss, g9) = draw_financial_loss severity g7;
         (users, g11) = draw_affected_users industry g9;
         (attack_source, g12) = py_choice ATTACK_SOURCES g11;
         (vulnerability, g13) = py_choice SECURITY_VULNERABILITIES g12;
         (defense, g14) = py_choice DEFENSE_MECHANISMS g13;
         (action, g15) = py_choice ACTION_TAKEN g14;
         (resolution_time, g17) = draw_resolution_time severity g15;
         (data_loss, g18) = draw_data_loss atype severity g17;
         (attack_duration, g19) = draw_attack_duration atype g18;
         (ts, g20) = generate_timestamp g19
     in (\<lparr> timestamp = ts,
           year = year_of ts,
           location = country,
           attack_type = atype,
           target_industry = industry,
           target_system = tsystem,
           attack_severity = severity,
           attack_duration_min = round2 attack_duration,
           data_compromised_GB = round2 data_loss,
           financial_impact_USD = round2 financial_loss,
           response_time_min = round2 (resolution_time * 60),
           mitigation_method = defense,
           outcome = outcome_of action,
           attack_vector = vulnerability,
           attacker_origin = attacker_origin_of attack_source,
           affected_users = users \<rparr>, g20))"

subsection \<open>The dataset\<close>

fun generate_records :: "nat \<Rightarrow> rng \<Rightarrow> attack_record list \<times> rng" where
  "generate_records 0 g = ([], g)"
| "generate_records (Suc n) g =
     (let (r, g') = generate_attack_record g;
          (rs, g'') = generate_records n g'
      in (r # rs, g''))"

definition generate_dataset :: "nat \<Rightarrow> rng \<Rightarrow> attack_record list" where
  \<comment> \<open>the records in generation order, then sorted by timestamp (records with equal
      timestamps keep their order here; pandas does not fix it)\<close>
  "generate_dataset num_records g = sort_key timestamp (fst (generate_records num_records g))"

subsection \<open>Positions in the stream of draws\<close>

definition adv :: "rng \<Rightarrow> nat \<Rightarrow> rng" where
  \<comment> \<open>the generator state after \<open>k\<close> further draws\<close>
  "adv g k = (fst g, snd g + k)"

definition drawn_attack_source :: "rng \<Rightarrow> string" where
  \<comment> \<open>the value bound to \<^verbatim>\<open>attack_source\<close> in the call of \<^verbatim>\<open>generate_attack_record\<close>
      that starts in state \<open>g\<close>: the choice made after the eleven draws before it\<close>
  "drawn_attack_source g = fst (py_choice ATTACK_SOURCES (adv g 11))"

section \<open>The schema normalizer (modules/data_adapter.py)\<close>

subsection \<open>Tables, cells and errors\<close>

text \<open>
  A table is a pandas DataFrame as \<^verbatim>\<open>read_csv\<close> delivers it: an ordered list of named
  columns over a common range index, every column holding one cell per row. A cell is
  missing (\<open>NaN\<close>), an integer, a float (over the reals), a string or an instant
  (a \<^verbatim>\<open>Timestamp\<close>, as a number of time units). \<^verbatim>\<open>df[c] = v\<close> replaces the column
  \<open>c\<close> in place when it exists and appends it otherwise.
\<close>

datatype cell = NaN | IntV int | FloatV real | StrV string | TimeV int

record dataframe =
  nrows :: nat
  columns :: "(string \<times> cell list) list"

datatype error = TypeError | ValueError | KeyError | NameError | StreamlitStop

definition and_then :: "error + 'a \<Rightarrow> ('a \<Rightarrow> error + 'b) \<Rightarrow> error + 'b" where
  "and_then x f = (case x of Inl e \<Rightarrow> Inl e | Inr v \<Rightarrow> f v)"

fun map_result :: "('a \<Rightarrow> error + 'b) \<Rightarrow> 'a list \<Rightarrow> error + 'b list" where
  "map_result f [] = Inr []"
| "map_result f (x # xs) =
     (case f x of Inl e \<Rightarrow> Inl e
      | Inr y \<Rightarrow> (case map_result f xs of Inl e \<Rightarrow> Inl e | Inr ys \<Rightarrow> Inr (y # ys)))"

definition has_col :: "dataframe \<Rightarrow> string \<Rightarrow> bool" where
  \<comment> \<open>\<^verbatim>\<open>c in df.columns\<close>\<close>
  "has_col df c = (c \<in> fst ` set (columns df))"

definition lookup :: "dataframe \<Rightarrow> string \<Rightarrow> cell list option" where
  \<comment> \<open>\<^verbatim>\<open>df[c]\<close> where \<^verbatim>\<open>c in df.columns\<close>, \<open>None\<close> otherwise\<close>
  "lookup df c = map_of (columns df) c"

definition set_col :: "dataframe \<Rightarrow> string \<Rightarrow> cell list \<Rightarrow> dataframe" where
  \<comment> \<open>\<^verbatim>\<open>df[c] = v\<close>\<close>
  "set_col df c v = df\<lparr>columns := AList.update c v (columns df)\<rparr>"

definition wf_table :: "dataframe \<Rightarrow> bool" where
  "wf_table df = (distinct (map fst (columns df)) \<and>
                  list_all (\<lambda>kv. length (snd kv) = nrows df) (columns df))"

subsection \<open>Library behaviour taken as given\<close>

text \<open>
  The parsers and printers of pandas and Python are not part of the repository. They are
  parameters of the model: how a float and an instant print, which strings parse as an
  integer or a float (\<^verbatim>\<open>pd.to_numeric\<close>), which cells convert to an instant
  (\<^verbatim>\<open>pd.to_datetime\<close>), and how a raw draw becomes a Beta(2,5) sample. The clock is read
  at four places of the source; each reading is a parameter as well.
\<close>

record library =
  float_str :: "real \<Rightarrow> string"
  time_str :: "int \<Rightarrow> string"
  parse_int :: "string \<Rightarrow> int option"
  parse_float :: "string \<Rightarrow> real option"
  parse_datetime :: "cell \<Rightarrow> int option"
  beta_sample :: "nat \<Rightarrow> real"

record clock =
  now_created :: int       \<comment> \<open>\<^verbatim>\<open>mapped['Timestamp'] = pd.Timestamp.now()\<close>\<close>
  now_coerced :: int       \<comment> \<open>the \<^verbatim>\<open>fillna\<close> on \<^verbatim>\<open>mapped['Timestamp']\<close>\<close>
  now_standardized :: int  \<comment> \<open>the \<^verbatim>\<open>fillna\<close> on \<^verbatim>\<open>standardized['timestamp']\<close>\<close>
  now_loaded :: int        \<comment> \<open>the \<^verbatim>\<open>fillna\<close> in \<^verbatim>\<open>load_best_dataset\<close>\<close>

fun astype_str :: "library \<Rightarrow> cell \<Rightarrow> string" where
  \<comment> \<open>\<^verbatim>\<open>str(x)\<close> of a cell, as \<^verbatim>\<open>astype(str)\<close> and f-strings apply it\<close>
  "astype_str L NaN = ''nan''"
| "astype_str L (IntV i) = string_of_int i"
| "astype_str L (FloatV x) = float_str L x"
| "astype_str L (StrV s) = s"
| "astype_str L (TimeV t) = time_str L t"

fun to_datetime_coerce :: "library \<Rightarrow> int \<Rightarrow> cell \<Rightarrow> cell" where
  \<comment> \<open>\<^verbatim>\<open>pd.to_datetime(x, errors='coerce')\<close> followed by \<^verbatim>\<open>fillna(now)\<close>\<close>
  "to_datetime_coerce L now NaN = TimeV now"
| "to_datetime_coerce L now (TimeV t) = TimeV t"
| "to_datetime_coerce L now c =
     (case parse_datetime L c of Some t \<Rightarrow> TimeV t | None \<Rightarrow> TimeV now)"

definition to_datetime_strict :: "library \<Rightarrow> cell \<Rightarrow> error + cell" where
  \<comment> \<open>\<^verbatim>\<open>pd.to_datetime(x)\<close> on a string: an unparsable string raises\<close>
  "to_datetime_strict L c =
     (case parse_datetime L c of Some t \<Rightarrow> Inr (TimeV t) | None \<Rightarrow> Inl ValueError)"

fun to_numeric :: "library \<Rightarrow> cell \<Rightarrow> cell" where
  \<comment> \<open>\<^verbatim>\<open>pd.to_numeric(x, errors='coerce')\<close>\<close>
  "to_numeric L NaN = NaN"
| "to_numeric L (IntV i) = IntV i"
| "to_numeric L (FloatV x) = FloatV x"
| "to_numeric L (StrV s) =
     (case parse_int L s of Some i \<Rightarrow> IntV i
      | None \<Rightarrow> (case parse_float L s of Some x \<Rightarrow> FloatV x | None \<Rightarrow> NaN))"
| "to_numeric L (TimeV t) = IntV t"

fun fillna :: "cell \<Rightarrow> cell \<Rightarrow> cell" where
  "fillna d NaN = d"
| "fillna d c = c"

fun num_of :: "cell \<Rightarrow> real option" where
  "num_of (IntV i) = Some (of_int i)"
| "num_of (FloatV x) = Some x"
| "num_of c = None"

fun scale :: "real \<Rightarrow> cell \<Rightarrow> cell" where
  \<comment> \<open>\<^verbatim>\<open>x * k\<close> for a float \<open>k\<close> on a numeric cell\<close>
  "scale k (IntV i) = FloatV (of_int i * k)"
| "scale k (FloatV x) = FloatV (x * k)"
| "scale k c = NaN"

subsection \<open>numpy's random source\<close>

text \<open>
  \<^verbatim>\<open>np.random\<close> is process-wide state as well; it is modelled like the generator's
  source, one raw draw per sample. \<^verbatim>\<open>np.random.randint(lo, hi)\<close> excludes \<open>hi\<close>.
\<close>

definition np_random :: "rng \<Rightarrow> real \<times> rng" where
  "np_random g = (let (r, g') = next_raw g in (unit_float r, g'))"

definition np_randint :: "int \<Rightarrow> int \<Rightarrow> rng \<Rightarrow> int \<times> rng" where
  "np_randint lo hi g = (let (r, g') = next_raw g in (lo + int (r mod nat (hi - lo)), g'))"

fun draws :: "nat \<Rightarrow> rng \<Rightarrow> nat list \<times> rng" where
  "draws 0 g = ([], g)"
| "draws (Suc n) g = (let (r, g') = next_raw g; (rs, g'') = draws n g' in (r # rs, g''))"

definition np_choice :: "'a list \<Rightarrow> nat \<Rightarrow> rng \<Rightarrow> 'a list \<times> rng" where
  \<comment> \<open>\<^verbatim>\<open>np.random.choice(xs, size=n)\<close>\<close>
  "np_choice xs n g = (let (rs, g') = draws n g in (map (\<lambda>r. xs ! (r mod length xs)) rs, g'))"

definition np_choice_p :: "'a list \<Rightarrow> real list \<Rightarrow> nat \<Rightarrow> rng \<Rightarrow> 'a list \<times> rng" where
  \<comment> \<open>\<^verbatim>\<open>np.random.choice(xs, size=n, p=ps)\<close>: search the cumulative weights\<close>
  "np_choice_p xs ps n g =
     (let cdf = accumulate 0 ps;
          (rs, g') = draws n g
      in (map (\<lambda>r. xs ! bisect cdf (unit_float r * last cdf) (length xs - 1)) rs, g'))"

definition np_randint_size :: "int \<Rightarrow> int \<Rightarrow> nat \<Rightarrow> rng \<Rightarrow> int list \<times> rng" where
  \<comment> \<open>\<^verbatim>\<open>np.random.randint(lo, hi, size=n)\<close>\<close>
  "np_randint_size lo hi n g =
     (let (rs, g') = draws n g in (map (\<lambda>r. lo + int (r mod nat (hi - lo))) rs, g'))"

definition np_beta :: "library \<Rightarrow> nat \<Rightarrow> rng \<Rightarrow> real list \<times> rng" where
  \<comment> \<open>\<^verbatim>\<open>np.random.beta(2, 5, size=n)\<close>\<close>
  "np_beta L n g = (let (rs, g') = draws n g in (map (beta_sample L) rs, g'))"

subsection \<open>Placeholder synthesis in map_global_schema\<close>

definition CANONICAL_COLUMNS :: "string list" where
  "CANONICAL_COLUMNS =
    [''Timestamp'', ''Device Information'', ''Attack Type'', ''Anomaly Scores'',
     ''Packet Length'', ''Source Port'', ''Destination Port'', ''Source IP Address'',
     ''Destination IP Address'', ''Protocol'', ''Action Taken'', ''IDS/IPS Alerts'',
     ''Malware Indicators'', ''Firewall Logs'', ''Proxy Information'', ''Attack Signature'',
     ''Severity Level'']"

type_synonym st = "dataframe \<times> rng"

definition fill :: "string \<Rightarrow> (nat \<Rightarrow> rng \<Rightarrow> cell list \<times> rng) \<Rightarrow> st \<Rightarrow> st" where
  \<comment> \<open>\<^verbatim>\<open>if c not in mapped.columns: mapped[c] = <n samples>\<close>\<close>
  "fill c sample s =
     (let (m, g) = s
      in if has_col m c then (m, g)
         else (let (vs, g') = sample (nrows m) g in (set_col m c vs, g')))"

definition choice_cells :: "string list \<Rightarrow> nat \<Rightarrow> rng \<Rightarrow> cell list \<times> rng" where
  "choice_cells vocab n g = (let (vs, g') = np_choice vocab n g in (map StrV vs, g'))"

definition ensure_timestamp :: "library \<Rightarrow> clock \<Rightarrow> dataframe \<Rightarrow> error + dataframe" where
  \<comment> \<open>Create or map Timestamp: use Year if present otherwise use now\<close>
  "ensure_timestamp L clk m =
     (if has_col m ''Timestamp'' then Inr m
      else (case lookup m ''Year'' of
              Some ys \<Rightarrow>
                and_then (map_result (\<lambda>y. to_datetime_strict L (StrV (astype_str L y @ ''-01-01''))) ys)
                  (\<lambda>ts. Inr (set_col m ''Timestamp'' ts))
            | None \<Rightarrow> Inr (set_col m ''Timestamp'' (replicate (nrows m) (TimeV (now_created clk))))))"

definition device_types :: "string list" where
  "device_types = [''Network Sensor'', ''Firewall'', ''IDS'', ''Server'', ''Workstation'', ''IoT Device'']"

definition attack_types :: "string list" where
  "attack_types = [''DDoS'', ''SQL Injection'', ''XSS'', ''Malware'', ''Phishing'', ''Zero-day Exploit'']"

definition ensure_attack_type :: "st \<Rightarrow> st" where
  "ensure_attack_type s =
     (let (m, g) = s
      in case lookup m ''Attack Type'' of
           Some v \<Rightarrow> (set_col m ''Attack Type'' v, g)
         | None \<Rightarrow>
             (case lookup m ''attack_type'' of
                Some v \<Rightarrow> (set_col m ''Attack Type'' v, g)
              | None \<Rightarrow> (let (vs, g') = choice_cells attack_types (nrows m) g
                         in (set_col m ''Attack Type'' vs, g'))))"

definition anomaly_scores :: "library \<Rightarrow> nat \<Rightarrow> rng \<Rightarrow> cell list \<times> rng" where
  "anomaly_scores L n g = (let (xs, g') = np_beta L n g in (map FloatV xs, g'))"

definition randint_cells :: "int \<Rightarrow> int \<Rightarrow> nat \<Rightarrow> rng \<Rightarrow> cell list \<times> rng" where
  "randint_cells lo hi n g = (let (xs, g') = np_randint_size lo hi n g in (map IntV xs, g'))"

definition common_ports :: "int list" where
  "common_ports = [80, 443, 22, 21, 25, 53] @ map int [1024..<65535]"

definition destination_ports :: "nat \<Rightarrow> rng \<Rightarrow> cell list \<times> rng" where
  "destination_ports n g = (let (xs, g') = np_choice common_ports n g in (map IntV xs, g'))"

definition generate_ip :: "rng \<Rightarrow> string \<times> rng" where
  "generate_ip g0 =
     (let (u, g1) = np_random g0
      in if u < 3/10
         then (let (a, g2) = np_randint 0 255 g1;
                   (b, g3) = np_randint 1 255 g2
               in (''192.168.'' @ string_of_int a @ ''.'' @ string_of_int b, g3))
         else (let (a, g2) = np_randint 1 223 g1;
                   (b, g3) = np_randint 0 255 g2;
                   (c, g4) = np_randint 0 255 g3;
                   (d, g5) = np_randint 1 255 g4
               in (string_of_int a @ ''.'' @ string_of_int b @ ''.'' @ string_of_int c @ ''.'' @
                   string_of_int d, g5)))"

fun generate_ips :: "nat \<Rightarrow> rng \<Rightarrow> cell list \<times> rng" where
  \<comment> \<open>\<^verbatim>\<open>[generate_ip() for _ in range(n)]\<close>\<close>
  "generate_ips 0 g = ([], g)"
| "generate_ips (Suc n) g =
     (let (ip, g') = generate_ip g; (ips, g'') = generate_ips n g' in (StrV ip # ips, g''))"

definition ensure_ip_addresses :: "st \<Rightarrow> error + st" where
  \<comment> \<open>\<^verbatim>\<open>generate_ip\<close> is defined inside the branch for a missing source address only; the
      branch for a missing destination address calls it once per row\<close>
  "ensure_ip_addresses s =
     (let (m, g) = s;
          generate_ip_defined = \<not> has_col m ''Source IP Address'';
          (m1, g1) = fill ''Source IP Address'' generate_ips (m, g)
      in if has_col m1 ''Destination IP Address'' then Inr (m1, g1)
         else if generate_ip_defined \<or> nrows m1 = 0
         then Inr (fill ''Destination IP Address'' generate_ips (m1, g1))
         else Inl NameError)"

definition protocols :: "string list" where
  "protocols = [''TCP'', ''UDP'', ''ICMP'', ''HTTP'', ''HTTPS'', ''DNS'', ''SMTP'']"

definition actions :: "string list" where
  "actions = [''Blocked'', ''Allowed'', ''Quarantined'', ''Logged'', ''Alerted'', ''Escalated'']"

definition ensure_action_taken :: "st \<Rightarrow> st" where
  "ensure_action_taken s =
     (let (m, g) = s
      in if has_col m ''Action Taken'' then (m, g)
         else (case lookup m ''outcome'' of
                 Some v \<Rightarrow> (set_col m ''Action Taken'' v, g)
               | None \<Rightarrow> fill ''Action Taken'' (choice_cells actions) (m, g)))"

definition alert_types :: "string list" where
  "alert_types = [''Signature Match'', ''Anomaly Detected'', ''Policy Violation'', ''No Alert'', ''False Positive'']"

definition indicators :: "string list" where
  "indicators = [''None Detected'', ''Suspicious Binary'', ''Known Malware'', ''Potential Backdoor'', ''Ransomware Pattern'']"

definition log_types :: "string list" where
  "log_types = [''Connection Blocked'', ''Traffic Allowed'', ''Rate Limited'', ''NAT Translation'', ''VPN Access'']"

definition proxy_info :: "string list" where
  "proxy_info = [''Direct Connection'', ''Via Corporate Proxy'', ''VPN Endpoint'', ''TOR Exit Node'', ''Unknown Proxy'']"

fun attack_signatures :: "library \<Rightarrow> cell list \<Rightarrow> rng \<Rightarrow> cell list \<times> rng" where
  \<comment> \<open>\<^verbatim>\<open>mapped['Attack Type'].apply(lambda x: f"{x}_{np.random.randint(1000, 9999)}")\<close>\<close>
  "attack_signatures L [] g = ([], g)"
| "attack_signatures L (x # xs) g =
     (let (k, g') = np_randint 1000 9999 g;
          (sigs, g'') = attack_signatures L xs g'
      in (StrV (astype_str L x @ ''_'' @ string_of_int k) # sigs, g''))"

definition ensure_attack_signature :: "library \<Rightarrow> st \<Rightarrow> error + st" where
  "ensure_attack_signature L s =
     (let (m, g) = s
      in if has_col m ''Attack Signature'' then Inr (m, g)
         else (case lookup m ''Attack Type'' of
                 Some v \<Rightarrow> (let (sigs, g') = attack_signatures L v g
                            in Inr (set_col m ''Attack Signature'' sigs, g'))
               | None \<Rightarrow> Inl KeyError))"

definition severity_label :: "real \<Rightarrow> string" where
  \<comment> \<open>\<^verbatim>\<open>'Critical' if x >= 8 else ('High' if x >= 6 else ('Medium' if x >= 4 else 'Low'))\<close>\<close>
  "severity_label x =
     (if x \<ge> 8 then ''Critical'' else if x \<ge> 6 then ''High'' else if x \<ge> 4 then ''Medium'' else ''Low'')"

definition loss_label :: "real \<Rightarrow> string" where
  \<comment> \<open>\<^verbatim>\<open>'Critical' if x > 100 else ('High' if x > 50 else ('Medium' if x > 10 else 'Low'))\<close>\<close>
  "loss_label x =
     (if x > 100 then ''Critical'' else if x > 50 then ''High'' else if x > 10 then ''Medium'' else ''Low'')"

fun apply_label :: "(real \<Rightarrow> string) \<Rightarrow> cell \<Rightarrow> error + cell" where
  \<comment> \<open>\<^verbatim>\<open>.apply(lambda x: ...)\<close> with a lambda that compares \<open>x\<close> with numbers: every comparison
      with NaN is false, which gives the last label; a string or an instant raises\<close>
  "apply_label f NaN = Inr (StrV ''Low'')"
| "apply_label f (IntV i) = Inr (StrV (f (of_int i)))"
| "apply_label f (FloatV x) = Inr (StrV (f x))"
| "apply_label f (StrV s) = Inl TypeError"
| "apply_label f (TimeV t) = Inl TypeError"

definition severity_levels :: "string list" where
  "severity_levels = [''Low'', ''Medium'', ''High'', ''Critical'']"

definition weights :: "real list" where
  "weights = [4/10, 3/10, 2/10, 1/10]"

definition weighted_severity_levels :: "nat \<Rightarrow> rng \<Rightarrow> cell list \<times> rng" where
  "weighted_severity_levels n g =
     (let (vs, g') = np_choice_p severity_levels weights n g in (map StrV vs, g'))"

definition ensure_severity_level :: "st \<Rightarrow> error + st" where
  "ensure_severity_level s =
     (let (m, g) = s
      in if has_col m ''Severity Level'' then Inr (m, g)
         else (case lookup m ''attack_severity'' of
                 Some v \<Rightarrow> and_then (map_result (apply_label severity_label) v)
                             (\<lambda>ls. Inr (set_col m ''Severity Level'' ls, g))
               | None \<Rightarrow>
                  (case lookup m ''Financial Loss (in Million $)'' of
                     Some v \<Rightarrow> and_then (map_result (apply_label loss_label) v)
                                 (\<lambda>ls. Inr (set_col m ''Severity Level'' ls, g))
                   | None \<Rightarrow> Inr (fill ''Severity Level'' weighted_severity_levels (m, g)))))"

definition country_coords :: "(string \<times> real \<times> real) list" where
  "country_coords =
    [(''USA'', (370902/10000, -957129/10000)),
     (''China'', (358617/10000, 1041954/10000)),
     (''Russia'', (615240/10000, 1053188/10000)),
     (''UK'', (553781/10000, -34360/10000)),
     (''India'', (205937/10000, 789629/10000))]"

fun coords_of :: "cell \<Rightarrow> real \<times> real" where
  \<comment> \<open>the left merge on the country name, then \<^verbatim>\<open>fillna(0)\<close>\<close>
  "coords_of (StrV s) = (case map_of country_coords s of Some p \<Rightarrow> p | None \<Rightarrow> (0, 0))"
| "coords_of c = (0, 0)"

definition ensure_coordinates :: "dataframe \<Rightarrow> dataframe" where
  "ensure_coordinates m =
     (case lookup m ''Country'' of
        Some v \<Rightarrow>
          (if has_col m ''Latitude'' then m
           else set_col (set_col m ''Latitude'' (map (\<lambda>c. FloatV (fst (coords_of c))) v))
                  ''Longitude'' (map (\<lambda>c. FloatV (snd (coords_of c))) v))
      | None \<Rightarrow> m)"

definition coerce_timestamp :: "library \<Rightarrow> int \<Rightarrow> string \<Rightarrow> dataframe \<Rightarrow> dataframe" where
  \<comment> \<open>\<^verbatim>\<open>df[c] = pd.to_datetime(df[c], errors='coerce').fillna(pd.Timestamp.now())\<close>\<close>
  "coerce_timestamp L now c m =
     (case lookup m c of
        Some v \<Rightarrow> set_col m c (map (to_datetime_coerce L now) v)
      | None \<Rightarrow> m)"

definition ensure_canonical :: "dataframe \<Rightarrow> dataframe" where
  \<comment> \<open>\<^verbatim>\<open>for c in CANONICAL_COLUMNS: if c not in mapped.columns: mapped[c] = [None] * n\<close>\<close>
  "ensure_canonical m =
     foldl (\<lambda>m c. if has_col m c then m else set_col m c (replicate (nrows m) NaN)) m CANONICAL_COLUMNS"

definition head_steps :: "library \<Rightarrow> st \<Rightarrow> st" where
  \<comment> \<open>the steps between the timestamp and the IP addresses\<close>
  "head_steps L s =
     fill ''Destination Port'' destination_ports
       (fill ''Source Port'' (randint_cells 1024 65535)
       (fill ''Packet Length'' (randint_cells 64 1500)
       (fill ''Anomaly Scores'' (anomaly_scores L)
       (ensure_attack_type
       (fill ''Device Information'' (choice_cells device_types) s)))))"

definition middle_steps :: "st \<Rightarrow> st" where
  \<comment> \<open>the steps between the IP addresses and the attack signature\<close>
  "middle_steps s =
     fill ''Proxy Information'' (choice_cells proxy_info)
       (fill ''Firewall Logs'' (choice_cells log_types)
       (fill ''Malware Indicators'' (choice_cells indicators)
       (fill ''IDS/IPS Alerts'' (choice_cells alert_types)
       (ensure_action_taken
       (fill ''Protocol'' (choice_cells protocols) s)))))"

definition tail_steps :: "library \<Rightarrow> clock \<Rightarrow> dataframe \<Rightarrow> dataframe" where
  \<comment> \<open>the last three steps on \<^verbatim>\<open>mapped\<close>\<close>
  "tail_steps L clk m =
     ensure_canonical (coerce_timestamp L (now_coerced clk) ''Timestamp'' (ensure_coordinates m))"

definition build_mapped :: "library \<Rightarrow> clock \<Rightarrow> dataframe \<Rightarrow> rng \<Rightarrow> error + dataframe" where
  \<comment> \<open>the first half of \<^verbatim>\<open>map_global_schema\<close>: the table \<^verbatim>\<open>mapped\<close>\<close>
  "build_mapped L clk df g =
     and_then (ensure_timestamp L clk df) (\<lambda>m0.
     and_then (ensure_ip_addresses (head_steps L (m0, g))) (\<lambda>s1.
     and_then (ensure_attack_signature L (middle_steps s1)) (\<lambda>s2.
     and_then (ensure_severity_level s2) (\<lambda>s3.
     Inr (tail_steps L clk (fst s3))))))"

subsection \<open>The standardized table\<close>

datatype val = Series "cell list" | Scalar cell

definition df_get :: "dataframe \<Rightarrow> string \<Rightarrow> val \<Rightarrow> val" where
  \<comment> \<open>\<^verbatim>\<open>mapped.get(c, default)\<close>\<close>
  "df_get m c dflt = (case lookup m c of Some v \<Rightarrow> Series v | None \<Rightarrow> dflt)"

definition as_series :: "nat \<Rightarrow> val \<Rightarrow> cell list" where
  \<comment> \<open>\<^verbatim>\<open>_as_series(val)\<close>: a Series is realigned to the index, a scalar is repeated\<close>
  "as_series n v = (case v of Series cs \<Rightarrow> cs | Scalar c \<Rightarrow> replicate n c)"

definition sev_to_num :: "string \<Rightarrow> int" where
  "sev_to_num x =
     (if str_in ''critical'' x then 9
      else if str_in ''high'' x then 7
      else if str_in ''medium'' x then 5
      else if str_in ''low'' x then 2
      else 5)"

definition loss_to_sev :: "real \<Rightarrow> int" where
  "loss_to_sev x = (if x > 100 then 9 else if x > 50 then 7 else if x > 10 then 5 else 3)"

definition users_to_sev :: "real \<Rightarrow> int" where
  "users_to_sev x = (if x > 100000 then 7 else if x > 10000 then 5 else 3)"

definition apply_num :: "(real \<Rightarrow> cell) \<Rightarrow> cell \<Rightarrow> cell" where
  \<comment> \<open>\<^verbatim>\<open>.apply(f)\<close> on a numeric column\<close>
  "apply_num f c = (case num_of c of Some x \<Rightarrow> f x | None \<Rightarrow> NaN)"

definition std_timestamp :: "library \<Rightarrow> clock \<Rightarrow> dataframe \<Rightarrow> error + cell list" where
  "std_timestamp L clk m =
     (case lookup m ''Timestamp'' of
        Some v \<Rightarrow> Inr (map (to_datetime_coerce L (now_standardized clk)) v)
      | None \<Rightarrow>
         (case lookup m ''timestamp'' of
            Some v \<Rightarrow> Inr (map (to_datetime_coerce L (now_standardized clk)) v)
          | None \<Rightarrow>
             (case lookup m ''Year'' of
                Some v \<Rightarrow> map_result (\<lambda>y. to_datetime_strict L (StrV (astype_str L y @ ''-01-01''))) v
              | None \<Rightarrow> Inr (as_series (nrows m) (Scalar (TimeV (now_standardized clk)))))))"

definition std_attack_type :: "dataframe \<Rightarrow> cell list" where
  "std_attack_type m =
     (case lookup m ''Attack Type'' of
        Some v \<Rightarrow> as_series (nrows m) (Series v)
      | None \<Rightarrow>
         (case lookup m ''attack_type'' of
            Some v \<Rightarrow> as_series (nrows m) (Series v)
          | None \<Rightarrow> as_series (nrows m) (df_get m ''Attack Signature'' (Scalar (StrV ''Unknown'')))))"

definition std_target_system :: "dataframe \<Rightarrow> cell list" where
  "std_target_system m =
     as_series (nrows m)
       (df_get m ''Device Information''
         (df_get m ''Target'' (df_get m ''Target Industry'' (Scalar (StrV ''Unknown System'')))))"

definition std_location :: "dataframe \<Rightarrow> cell list" where
  "std_location m =
     (case lookup m ''location'' of
        Some v \<Rightarrow> as_series (nrows m) (Series v)
      | None \<Rightarrow>
         (case lookup m ''Country'' of
            Some v \<Rightarrow> as_series (nrows m) (Series v)
          | None \<Rightarrow> as_series (nrows m) (Scalar (StrV ''Unknown''))))"

definition std_industry :: "dataframe \<Rightarrow> cell list" where
  "std_industry m =
     as_series (nrows m)
       (df_get m ''Industry'' (df_get m ''industry'' (df_get m ''Target Industry'' (Scalar (StrV ''Various'')))))"

definition std_attack_severity :: "library \<Rightarrow> dataframe \<Rightarrow> cell list" where
  "std_attack_severity L m =
     (case lookup m ''attack_severity'' of
        Some v \<Rightarrow> map (\<lambda>c. fillna (IntV 5) (to_numeric L c)) v
      | None \<Rightarrow>
         (case lookup m ''Severity Level'' of
            Some v \<Rightarrow> map (\<lambda>c. IntV (sev_to_num (str_lower (astype_str L c)))) v
          | None \<Rightarrow>
             (case lookup m ''Financial Loss (in Million $)'' of
                Some v \<Rightarrow> map (\<lambda>c. apply_num (\<lambda>x. IntV (loss_to_sev x))
                                      (fillna (IntV 0) (to_numeric L c))) v
              | None \<Rightarrow>
                 (case lookup m ''Number of Affected Users'' of
                    Some v \<Rightarrow> map (\<lambda>c. apply_num (\<lambda>x. IntV (users_to_sev x))
                                          (fillna (IntV 0) (to_numeric L c))) v
                  | None \<Rightarrow> as_series (nrows m) (Scalar (IntV 5))))))"

definition std_data_compromised :: "library \<Rightarrow> dataframe \<Rightarrow> cell list" where
  "std_data_compromised L m =
     (case lookup m ''data_compromised_GB'' of
        Some v \<Rightarrow> map (\<lambda>c. fillna (IntV 0) (to_numeric L c)) v
      | None \<Rightarrow>
         (case lookup m ''Financial Loss (in Million $)'' of
            Some v \<Rightarrow> map (\<lambda>c. scale (1/2) (fillna (IntV 0) (to_numeric L c))) v
          | None \<Rightarrow>
             (case lookup m ''Number of Affected Users'' of
                Some v \<Rightarrow> map (\<lambda>c. scale (1/1000) (fillna (IntV 0) (to_numeric L c))) v
              | None \<Rightarrow> as_series (nrows m) (Scalar (IntV 0)))))"

definition std_outcome :: "library \<Rightarrow> dataframe \<Rightarrow> cell list" where
  "std_outcome L m =
     (case lookup m ''Action Taken'' of
        Some v \<Rightarrow> as_series (nrows m) (Series v)
      | None \<Rightarrow>
         (case lookup m ''outcome'' of
            Some v \<Rightarrow> as_series (nrows m) (Series v)
          | None \<Rightarrow>
             (case lookup m ''Incident Resolution Time (in Hours)'' of
                Some v \<Rightarrow> map (\<lambda>c. apply_num (\<lambda>x. StrV (if x > 0 then ''Resolved'' else ''Unknown''))
                                      (fillna (IntV 0) (to_numeric L c))) v
              | None \<Rightarrow> as_series (nrows m) (Scalar (StrV ''Unknown'')))))"

definition std_attacker_ip :: "dataframe \<Rightarrow> cell list" where
  "std_attacker_ip m =
     as_series (nrows m)
       (df_get m ''Source IP Address'' (df_get m ''attacker_ip'' (Scalar (StrV ''0.0.0.0''))))"

definition std_target_ip :: "dataframe \<Rightarrow> cell list" where
  "std_target_ip m =
     as_series (nrows m)
       (df_get m ''Destination IP Address'' (df_get m ''target_ip'' (Scalar (StrV ''0.0.0.0''))))"

definition std_mitigation_method :: "dataframe \<Rightarrow> cell list" where
  "std_mitigation_method m =
     as_series (nrows m)
       (df_get m ''Defense Mechanism Used''
         (df_get m ''Defense Mechanism''
           (df_get m ''mitigation_method''
             (df_get m ''Attack Signature'' (Scalar (StrV ''Standard Protocol''))))))"

definition std_attack_duration :: "library \<Rightarrow> dataframe \<Rightarrow> cell list" where
  "std_attack_duration L m =
     map (\<lambda>c. fillna (IntV 30) (to_numeric L c))
       (as_series (nrows m)
         (df_get m ''attack_duration_min'' (df_get m ''Duration (min)'' (Scalar (IntV 30)))))"

definition std_response_time :: "library \<Rightarrow> dataframe \<Rightarrow> cell list" where
  "std_response_time L m =
     map (\<lambda>c. fillna (IntV 15) (to_numeric L c))
       (as_series (nrows m)
         (df_get m ''response_time_min'' (df_get m ''Response Time (min)'' (Scalar (IntV 15)))))"

definition std_security_tools :: "dataframe \<Rightarrow> cell list" where
  "std_security_tools m =
     as_series (nrows m)
       (df_get m ''Defense Mechanism Used''
         (df_get m ''security_tools_used'' (Scalar (StrV ''Basic Security Suite''))))"

definition std_user_role :: "dataframe \<Rightarrow> cell list" where
  "std_user_role m = as_series (nrows m) (df_get m ''user_role'' (Scalar (StrV ''User'')))"

definition astype_str_col :: "library \<Rightarrow> string \<Rightarrow> dataframe \<Rightarrow> dataframe" where
  \<comment> \<open>\<^verbatim>\<open>df[c] = df[c].astype(str)\<close>\<close>
  "astype_str_col L c s =
     (case lookup s c of
        Some v \<Rightarrow> set_col s c (map (\<lambda>x. StrV (astype_str L x)) v)
      | None \<Rightarrow> s)"

definition standardize :: "library \<Rightarrow> clock \<Rightarrow> dataframe \<Rightarrow> error + dataframe" where
  \<comment> \<open>the second half of \<^verbatim>\<open>map_global_schema\<close>: the table \<^verbatim>\<open>standardized\<close>, built by
      successive column assignments and the three final \<^verbatim>\<open>astype(str)\<close>\<close>
  "standardize L clk m =
     and_then (std_timestamp L clk m) (\<lambda>ts.
     (let s0 = \<lparr>nrows = nrows m, columns = []\<rparr>;
          s1 = set_col s0 ''timestamp'' ts;
          s2 = set_col s1 ''attack_type'' (std_attack_type m);
          s3 = set_col s2 ''target_system'' (std_target_system m);
          s4 = set_col s3 ''location'' (std_location m);
          s5 = set_col s4 ''industry'' (std_industry m);
          s6 = set_col s5 ''attack_severity'' (std_attack_severity L m);
          s7 = set_col s6 ''data_compromised_GB'' (std_data_compromised L m);
          s8 = set_col s7 ''outcome'' (std_outcome L m);
          s9 = set_col s8 ''attacker_ip'' (std_attacker_ip m);
          s10 = set_col s9 ''target_ip'' (std_target_ip m);
          s11 = set_col s10 ''mitigation_method'' (std_mitigation_method m);
          s12 = set_col s11 ''attack_duration_min'' (std_attack_duration L m);
          s13 = set_col s12 ''response_time_min'' (std_response_time L m);
          s14 = set_col s13 ''security_tools_used'' (std_security_tools m);
          s15 = set_col s14 ''user_role'' (std_user_role m)
      in Inr (astype_str_col L ''location''
               (astype_str_col L ''target_system''
                 (astype_str_col L ''attack_type'' s15)))))"

definition map_global_schema :: "library \<Rightarrow> clock \<Rightarrow> dataframe \<Rightarrow> rng \<Rightarrow> error + dataframe" where
  "map_global_schema L clk df g = and_then (build_mapped L clk df g) (standardize L clk)"

definition load_best_dataset :: "library \<Rightarrow> clock \<Rightarrow> dataframe option \<Rightarrow> rng \<Rightarrow> error + dataframe" where
  \<comment> \<open>the argument is the table read from the dataset found, \<open>None\<close> when no CSV file exists\<close>
  "load_best_dataset L clk ds g =
     (case ds of
        None \<Rightarrow> Inl StreamlitStop
      | Some df \<Rightarrow>
          if has_col df ''Country'' \<and> has_col df ''Financial Loss (in Million $)''
          then map_global_schema L clk df g
          else if has_col df ''Timestamp'' \<and> has_col df ''Attack Type''
          then Inr (coerce_timestamp L (now_loaded clk) ''Timestamp'' df)
          else map_global_schema L clk df g)"

subsection \<open>The canonical record shape\<close>

definition canonical_fields :: "string list" where
  \<comment> \<open>the columns of the standardized table, in the order of their assignment\<close>
  "canonical_fields =
    [''timestamp'', ''attack_type'', ''target_system'', ''location'', ''industry'',
     ''attack_severity'', ''data_compromised_GB'', ''outcome'', ''attacker_ip'', ''target_ip'',
     ''mitigation_method'', ''attack_duration_min'', ''response_time_min'',
     ''security_tools_used'', ''user_role'']"

fun is_time :: "cell \<Rightarrow> bool" where
  "is_time (TimeV t) = True"
| "is_time c = False"

fun is_str :: "cell \<Rightarrow> bool" where
  "is_str (StrV s) = True"
| "is_str c = False"

fun is_num :: "cell \<Rightarrow> bool" where
  "is_num (IntV i) = True"
| "is_num (FloatV x) = True"
| "is_num c = False"

subsection \<open>Relating a table to the table a step makes of it\<close>

definition extends :: "string set \<Rightarrow> dataframe \<Rightarrow> dataframe \<Rightarrow> bool" where
  \<comment> \<open>\<open>m'\<close> has the rows of \<open>m\<close>, every column of \<open>m\<close> unchanged, and new columns among
      \<open>T\<close> only\<close>
  "extends T m m' =
     (nrows m' = nrows m \<and>
      (\<forall>c. has_col m c \<or> c \<notin> T \<longrightarrow> lookup m' c = lookup m c) \<and>
      (wf_table m \<longrightarrow> wf_table m'))"

definition sized :: "(nat \<Rightarrow> rng \<Rightarrow> cell list \<times> rng) \<Rightarrow> bool" where
  \<comment> \<open>the sampler delivers as many cells as it is asked for\<close>
  "sized sample = (\<forall>n g. length (fst (sample n g)) = n)"

definition head_cols :: "string set" where
  "head_cols = {''Device Information'', ''Attack Type'', ''Anomaly Scores'', ''Packet Length'',
                ''Source Port'', ''Destination Port''}"

definition middle_cols :: "string set" where
  "middle_cols = {''Protocol'', ''Action Taken'', ''IDS/IPS Alerts'', ''Malware Indicators'',
                  ''Firewall Logs'', ''Proxy Information''}"

definition early_cols :: "string set" where
  "early_cols = {''Timestamp''} \<union> head_cols \<union> {''Source IP Address'', ''Destination IP Address''} \<union>
                middle_cols \<union> {''Attack Signature''}"

definition column :: "dataframe \<Rightarrow> string \<Rightarrow> cell list" where
  \<comment> \<open>the cells of a column, for stating properties of a column known to be present\<close>
  "column df c = (case lookup df c of Some v \<Rightarrow> v | None \<Rightarrow> [])"

fun in_1_10 :: "cell \<Rightarrow> bool" where
  "in_1_10 (IntV k) = (1 \<le> k \<and> k \<le> 10)"
| "in_1_10 c = False"

subsection \<open>When map_global_schema returns\<close>

fun comparable :: "cell \<Rightarrow> bool" where
  \<comment> \<open>a cell that Python can compare with a number\<close>
  "comparable (StrV s) = False"
| "comparable (TimeV t) = False"
| "comparable c = True"

definition timestamp_ok :: "library \<Rightarrow> dataframe \<Rightarrow> bool" where
  "timestamp_ok L df =
     (has_col df ''Timestamp'' \<or>
      (case lookup df ''Year'' of
         Some ys \<Rightarrow> list_all (\<lambda>y. parse_datetime L (StrV (astype_str L y @ ''-01-01'')) \<noteq> None) ys
       | None \<Rightarrow> True))"

definition ip_ok :: "dataframe \<Rightarrow> bool" where
  "ip_ok df =
     (has_col df ''Destination IP Address'' \<or> \<not> has_col df ''Source IP Address'' \<or> nrows df = 0)"

definition severity_ok :: "dataframe \<Rightarrow> bool" where
  "severity_ok df =
     (has_col df ''Severity Level'' \<or>
      (case lookup df ''attack_severity'' of
         Some v \<Rightarrow> list_all comparable v
       | None \<Rightarrow>
          (case lookup df ''Financial Loss (in Million $)'' of
             Some v \<Rightarrow> list_all comparable v
           | None \<Rightarrow> True)))"

subsection \<open>Reading a result, and concrete inputs\<close>

fun result_column :: "error + dataframe \<Rightarrow> string \<Rightarrow> cell list option" where
  \<comment> \<open>the named column of the table returned, \<open>None\<close> when the call raised or the column is absent\<close>
  "result_column (Inr out) c = lookup out c"
| "result_column (Inl e) c = None"

definition lib0 :: library where
  \<comment> \<open>a library in which no text parses as a number or as a date; the inputs below carry
      no such text\<close>
  "lib0 = \<lparr>float_str = (\<lambda>x. ''0.0''), time_str = (\<lambda>t. ''1970-01-01''), parse_int = (\<lambda>s. None),
           parse_float = (\<lambda>s. None), parse_datetime = (\<lambda>c. None), beta_sample = (\<lambda>r. 0)\<rparr>"

definition clk0 :: clock where
  "clk0 = \<lparr>now_created = 1000, now_coerced = 1001, now_standardized = 1002, now_loaded = 1003\<rparr>"

definition g0 :: rng where
  "g0 = (\<lambda>i. i, 0)"

definition loss_table :: dataframe where
  \<comment> \<open>a CSV with the single column Financial Loss (in Million $) and the rows 120, 60, 20, 5\<close>
  "loss_table =
     \<lparr>nrows = 4,
      columns = [(''Financial Loss (in Million $)'', [IntV 120, IntV 60, IntV 20, IntV 5])]\<rparr>"

definition canonical_table :: "cell \<Rightarrow> dataframe" where
  \<comment> \<open>one record in the canonical shape, with the given timestamp cell\<close>
  "canonical_table t =
     \<lparr>nrows = 1,
      columns =
       [(''timestamp'', [t]), (''attack_type'', [StrV ''DDoS'']),
        (''target_system'', [StrV ''Web Server'']), (''location'', [StrV ''USA'']),
        (''industry'', [StrV ''Finance'']), (''attack_severity'', [IntV 7]),
        (''data_compromised_GB'', [FloatV (3/2)]), (''attack_duration_min'', [FloatV 30]),
        (''response_time_min'', [FloatV 15]), (''outcome'', [StrV ''Mitigated'']),
        (''attacker_ip'', [StrV ''10.0.0.1'']), (''target_ip'', [StrV ''10.0.0.2'']),
        (''mitigation_method'', [StrV ''Firewall'']), (''security_tools_used'', [StrV ''SIEM'']),
        (''user_role'', [StrV ''Admin''])]\<rparr>"

definition canonical_like_table :: dataframe where
  \<comment> \<open>a table with the columns Timestamp and Attack Type only; its timestamp text is not a date\<close>
  "canonical_like_table =
     \<lparr>nrows = 1,
      columns = [(''Timestamp'', [StrV ''unknown'']), (''Attack Type'', [StrV ''DDoS''])]\<rparr>"


definition big_severity_table :: dataframe where
  \<comment> \<open>a table that supplies its own numeric attack_severity, out of the range 1 to 10\<close>
  "big_severity_table = \<lparr>nrows = 1, columns = [(''attack_severity'', [IntV 15])]\<rparr>"

definition label_table :: dataframe where
  "label_table =
     \<lparr>nrows = 5,
      columns = [(''Severity Level'',
                  [StrV ''Critical'', StrV ''HIGH'', StrV ''Medium'', StrV ''low'', StrV ''none''])]\<rparr>"


definition global_table :: dataframe where
  \<comment> \<open>a table that has the columns of the global-threats schema and those of the canonical-like one\<close>
  "global_table =
     \<lparr>nrows = 1,
      columns = [(''Country'', [StrV ''UK'']), (''Financial Loss (in Million $)'', [FloatV 60]),
                 (''Timestamp'', [StrV ''unknown'']), (''Attack Type'', [StrV ''Phishing''])]\<rparr>"

definition kept :: "dataframe \<Rightarrow> dataframe \<Rightarrow> bool" where
  \<comment> \<open>every column of \<open>m\<close> other than Timestamp, Latitude and Longitude is a column of \<open>m'\<close>,
      with the same cells\<close>
  "kept m m' =
     (\<forall>c v. lookup m c = Some v \<longrightarrow> c \<noteq> ''Timestamp'' \<longrightarrow> c \<noteq> ''Latitude'' \<longrightarrow>
            c \<noteq> ''Longitude'' \<longrightarrow> lookup m' c = Some v)"

definition canonical_shape :: "dataframe \<Rightarrow> bool" where
  \<comment> \<open>a table already in the canonical shape: its columns are the canonical fields, every
      cell of the declared type\<close>
  "canonical_shape df =
     (wf_table df \<and>
      list_all (has_col df) canonical_fields \<and>
      list_all (\<lambda>c. c \<in> set canonical_fields) (map fst (columns df)) \<and>
      list_all is_time (column df ''timestamp'') \<and>
      list_all (\<lambda>c. list_all is_str (column df c))
        [''attack_type'', ''target_system'', ''location'', ''industry'', ''outcome'', ''attacker_ip'',
         ''target_ip'', ''mitigation_method'', ''security_tools_used'', ''user_role''] \<and>
      list_all (\<lambda>c. list_all is_num (column df c))
        [''attack_severity'', ''data_compromised_GB'', ''attack_duration_min'', ''response_time_min''])"

definition source_only_table :: dataframe where
  \<comment> \<open>a row with a source address and no destination address\<close>
  "source_only_table = \<lparr>nrows = 1, columns = [(''Source IP Address'', [StrV ''10.0.0.1''])]\<rparr>"

section \<open>Properties of the generator\<close>

lemma adv_simps: "adv (adv g j) k = adv g (j + k)" "raw_at (adv g j) k = raw_at g (j + k)"
  by (simp_all add: adv_def raw_at_def add.assoc)

lemma next_raw_eq: "next_raw g = (raw_at g 0, adv g 1)"
  by (simp add: next_raw_def raw_at_def adv_def)

lemma py_random_eq: "py_random g = (unit_float (raw_at g 0), adv g 1)"
  by (simp add: py_random_def next_raw_eq)

lemma py_uniform_eq: "py_uniform a b g = (a + (b - a) * unit_float (raw_at g 0), adv g 1)"
  by (simp add: py_uniform_def py_random_eq)

lemma py_randint_eq: "py_randint a b g = (a + int (raw_at g 0 mod nat (b - a + 1)), adv g 1)"
  by (simp add: py_randint_def next_raw_eq)

lemma py_choice_eq: "py_choice xs g = (xs ! (raw_at g 0 mod length xs), adv g 1)"
  by (simp add: py_choice_def next_raw_eq)

lemma snd_py_choices: "snd (py_choices xs ws g) = adv g 1"
  by (simp add: py_choices_def py_random_eq Let_def)

lemma generate_timestamp_eq:
  "generate_timestamp g = (int (raw_at g 0 mod nat (total_seconds + 1)), adv g 1)"
  by (simp add: generate_timestamp_def py_randint_eq)

lemma snd_draw_country: "snd (draw_country g) = adv g 2"
  by (simp add: draw_country_def py_random_eq py_choice_eq snd_py_choices adv_def)

lemma draw_severity_eq:
  "draw_severity atype g =
    (fst (dict_get severity_weights atype (3, 8)) +
       int (raw_at g 0 mod nat (snd (dict_get severity_weights atype (3, 8)) -
                                   fst (dict_get severity_weights atype (3, 8)) + 1)), adv g 1)"
  by (simp add: draw_severity_def py_randint_eq Let_def)

lemma snd_draw_financial_loss: "snd (draw_financial_loss s g) = adv g 2"
  by (simp add: draw_financial_loss_def py_uniform_eq adv_def)

lemma snd_draw_affected_users: "snd (draw_affected_users i g) = adv g 2"
  by (simp add: draw_affected_users_def py_uniform_eq py_randint_eq adv_def Let_def)

lemma snd_draw_resolution_time: "snd (draw_resolution_time s g) = adv g 2"
  by (simp add: draw_resolution_time_def py_uniform_eq adv_def)

lemma snd_draw_data_loss: "snd (draw_data_loss a s g) = adv g 1"
  by (simp add: draw_data_loss_def py_uniform_eq)

lemma snd_draw_attack_duration: "snd (draw_attack_duration a g) = adv g 1"
  by (simp add: draw_attack_duration_def py_uniform_eq)

lemmas gen_simps = generate_attack_record_def Let_def split_def
  py_randint_eq py_choice_eq generate_timestamp_eq adv_simps
  snd_draw_country draw_severity_eq snd_draw_financial_loss snd_draw_affected_users
  snd_draw_resolution_time snd_draw_data_loss snd_draw_attack_duration

lemma gen_attack_type:
  "attack_type (fst (generate_attack_record g)) = ATTACK_TYPES ! (raw_at g 3 mod length ATTACK_TYPES)"
  by (simp add: gen_simps)

lemma gen_severity:
  "attack_severity (fst (generate_attack_record g)) =
     fst (draw_severity (attack_type (fst (generate_attack_record g))) (adv g 6))"
  by (simp add: gen_simps)

lemma gen_origin:
  "attacker_origin (fst (generate_attack_record g)) =
     attacker_origin_of (ATTACK_SOURCES ! (raw_at g 11 mod length ATTACK_SOURCES))"
  by (simp add: gen_simps)

lemma gen_timestamp:
  "timestamp (fst (generate_attack_record g)) = int (raw_at g 19 mod nat (total_seconds + 1))"
  by (simp add: gen_simps)

lemma gen_state: "snd (generate_attack_record g) = adv g 20"
  by (simp add: gen_simps)


lemma generate_records_members:
  "r \<in> set (fst (generate_records n g)) \<Longrightarrow> \<exists>k. r = fst (generate_attack_record (adv g k))"
proof (induction n arbitrary: g)
  case 0
  then show ?case by simp
next
  case (Suc n)
  from Suc.prems have "r = fst (generate_attack_record g) \<or>
      r \<in> set (fst (generate_records n (adv g 20)))"
    by (simp add: split_def Let_def gen_state)
  then show ?case
  proof
    assume "r = fst (generate_attack_record g)"
    then have "r = fst (generate_attack_record (adv g 0))" by (simp add: adv_def)
    then show ?thesis ..
  next
    assume "r \<in> set (fst (generate_records n (adv g 20)))"
    from Suc.IH [OF this] obtain k where "r = fst (generate_attack_record (adv (adv g 20) k))" ..
    then show ?thesis by (auto simp: adv_simps)
  qed
qed

lemma generate_dataset_members:
  "r \<in> set (generate_dataset n g) \<Longrightarrow> \<exists>g'. r = fst (generate_attack_record g')"
proof -
  assume "r \<in> set (generate_dataset n g)"
  then have "r \<in> set (fst (generate_records n g))" by (simp add: generate_dataset_def)
  from generate_records_members [OF this] obtain k where "r = fst (generate_attack_record (adv g k))" ..
  then show ?thesis ..
qed

lemma severity_range_Ransomware: "dict_get severity_weights ''Ransomware'' (3, 8) = (7, 10)"
  by (simp add: dict_get_def severity_weights_def)

lemma severity_range_Brute_Force: "dict_get severity_weights ''Brute Force'' (3, 8) = (3, 6)"
  by (simp add: dict_get_def severity_weights_def)

lemma draw_severity_bounds:
  assumes "dict_get severity_weights atype (3, 8) = (lo, hi)" "lo \<le> hi"
  shows "lo \<le> fst (draw_severity atype g) \<and> fst (draw_severity atype g) \<le> hi"
proof -
  have pos: "0 < nat (hi - lo + 1)" using assms(2) by simp
  have "raw_at g 0 mod nat (hi - lo + 1) < nat (hi - lo + 1)"
    using pos by (rule mod_less_divisor)
  then have "int (raw_at g 0 mod nat (hi - lo + 1)) \<le> hi - lo" using assms(2) by linarith
  then show ?thesis by (simp add: draw_severity_eq assms(1))
qed

text \<open>
  C8. Every record of the generated dataset whose attack type is Ransomware has a severity
  between 7 and 10, every Brute Force record one between 3 and 6, and every record whose
  attack type is absent from the per-type severity table one between 3 and 8.
\<close>

theorem generator_severity_ranges:
  assumes "r \<in> set (generate_dataset n g)"
  shows "(attack_type r = ''Ransomware'' \<longrightarrow> 7 \<le> attack_severity r \<and> attack_severity r \<le> 10) \<and>
         (attack_type r = ''Brute Force'' \<longrightarrow> 3 \<le> attack_severity r \<and> attack_severity r \<le> 6) \<and>
         (map_of severity_weights (attack_type r) = None \<longrightarrow>
            3 \<le> attack_severity r \<and> attack_severity r \<le> 8)"
proof -
  from generate_dataset_members [OF assms] obtain g' where r: "r = fst (generate_attack_record g')" ..
  have sev: "attack_severity r = fst (draw_severity (attack_type r) (adv g' 6))"
    unfolding r by (rule gen_severity)
  show ?thesis
  proof (intro conjI impI)
    assume a: "attack_type r = ''Ransomware''"
    from draw_severity_bounds [OF severity_range_Ransomware, of "adv g' 6"]
    show "7 \<le> attack_severity r" "attack_severity r \<le> 10" by (simp_all add: sev a)
  next
    assume a: "attack_type r = ''Brute Force''"
    from draw_severity_bounds [OF severity_range_Brute_Force, of "adv g' 6"]
    show "3 \<le> attack_severity r" "attack_severity r \<le> 6" by (simp_all add: sev a)
  next
    assume a: "map_of severity_weights (attack_type r) = None"
    then have "dict_get severity_weights (attack_type r) (3, 8) = (3, 8)"
      by (simp add: dict_get_def)
    from draw_severity_bounds [OF this, of "adv g' 6"]
    show "3 \<le> attack_severity r" "attack_severity r \<le> 8" by (simp_all add: sev)
  qed
qed

lemma dataset_one: "generate_dataset (Suc 0) g = [fst (generate_attack_record g)]"
  by (simp add: generate_dataset_def split_def Let_def)

lemma attack_type_const:
  "attack_type (fst (generate_attack_record (\<lambda>i. c, 0))) = ATTACK_TYPES ! (c mod length ATTACK_TYPES)"
  by (simp add: gen_attack_type raw_at_def)

theorem generator_severity_ranges_witness:
  "(let r = fst (generate_attack_record (\<lambda>i. 1, 0))
    in r \<in> set (generate_dataset (Suc 0) (\<lambda>i. 1, 0)) \<and> attack_type r = ''Ransomware'' \<and>
       7 \<le> attack_severity r \<and> attack_severity r \<le> 10) \<and>
   (let r = fst (generate_attack_record (\<lambda>i. 7, 0))
    in r \<in> set (generate_dataset (Suc 0) (\<lambda>i. 7, 0)) \<and> attack_type r = ''Brute Force'' \<and>
       3 \<le> attack_severity r \<and> attack_severity r \<le> 6) \<and>
   (let r = fst (generate_attack_record (\<lambda>i. 5, 0))
    in r \<in> set (generate_dataset (Suc 0) (\<lambda>i. 5, 0)) \<and>
       map_of severity_weights (attack_type r) = None \<and>
       3 \<le> attack_severity r \<and> attack_severity r \<le> 8)"
proof -
  have m1: "fst (generate_attack_record (\<lambda>i. 1, 0)) \<in> set (generate_dataset (Suc 0) (\<lambda>i. 1, 0))"
    and m7: "fst (generate_attack_record (\<lambda>i. 7, 0)) \<in> set (generate_dataset (Suc 0) (\<lambda>i. 7, 0))"
    and m5: "fst (generate_attack_record (\<lambda>i. 5, 0)) \<in> set (generate_dataset (Suc 0) (\<lambda>i. 5, 0))"
    by (simp_all add: dataset_one)
  have t1: "attack_type (fst (generate_attack_record (\<lambda>i. 1, 0))) = ''Ransomware''"
    and t7: "attack_type (fst (generate_attack_record (\<lambda>i. 7, 0))) = ''Brute Force''"
    and t5: "map_of severity_weights (attack_type (fst (generate_attack_record (\<lambda>i. 5, 0)))) = None"
    by (simp_all add: attack_type_const ATTACK_TYPES_def severity_weights_def)
  show ?thesis
    using generator_severity_ranges [OF m1] generator_severity_ranges [OF m7]
      generator_severity_ranges [OF m5] m1 m7 m5 t1 t7 t5
    by (simp add: Let_def)
qed

lemma origin_cases:
  "src \<in> set ATTACK_SOURCES \<Longrightarrow>
     (str_in ''Insider'' src \<longleftrightarrow> src = ''Insider Threat'')"
  by (auto simp: ATTACK_SOURCES_def)

lemma drawn_attack_source_in: "drawn_attack_source g \<in> set ATTACK_SOURCES"
proof -
  have "raw_at (adv g 11) 0 mod length ATTACK_SOURCES < length ATTACK_SOURCES"
    by (rule mod_less_divisor) (simp add: ATTACK_SOURCES_def)
  then show ?thesis
    unfolding drawn_attack_source_def py_choice_eq fst_conv by (rule nth_mem)
qed

text \<open>
  C10. Every record the generator produces comes from a call of
  \<^verbatim>\<open>generate_attack_record\<close> in some generator state (\<open>generate_dataset_members\<close>). In
  each such call the attack source drawn is one of the fixed vocabulary, the field
  \<^verbatim>\<open>attacker_origin\<close> is Internal exactly when the drawn attack source contains the
  substring Insider, within the vocabulary that is exactly the source Insider Threat, and
  every other attack source gives External.
\<close>

theorem attacker_origin_rule:
  "(let r = fst (generate_attack_record g); attack_source = drawn_attack_source g
    in attack_source \<in> set ATTACK_SOURCES \<and>
       (attacker_origin r = ''Internal'' \<longleftrightarrow> str_in ''Insider'' attack_source) \<and>
       (str_in ''Insider'' attack_source \<longleftrightarrow> attack_source = ''Insider Threat'') \<and>
       (attack_source \<noteq> ''Insider Threat'' \<longrightarrow> attacker_origin r = ''External''))"
proof -
  have o: "attacker_origin (fst (generate_attack_record g)) = attacker_origin_of (drawn_attack_source g)"
    unfolding drawn_attack_source_def by (simp add: gen_origin py_choice_eq adv_simps)
  have c: "str_in ''Insider'' (drawn_attack_source g) \<longleftrightarrow> drawn_attack_source g = ''Insider Threat''"
    by (rule origin_cases [OF drawn_attack_source_in])
  show ?thesis
    using o c drawn_attack_source_in [of g] by (simp add: attacker_origin_of_def Let_def)
qed

theorem attacker_origin_rule_witness:
  "drawn_attack_source (\<lambda>i. 2, 0) = ''Insider Threat'' \<and>
   attacker_origin (fst (generate_attack_record (\<lambda>i. 2, 0))) = ''Internal'' \<and>
   drawn_attack_source (\<lambda>i. 3, 0) \<noteq> ''Insider Threat'' \<and>
   attacker_origin (fst (generate_attack_record (\<lambda>i. 3, 0))) = ''External''"
proof -
  have s: "drawn_attack_source (\<lambda>i. c, 0) = ATTACK_SOURCES ! (c mod length ATTACK_SOURCES)" for c
    by (simp add: drawn_attack_source_def py_choice_eq raw_at_def adv_def)
  have s2: "drawn_attack_source (\<lambda>i. 2, 0) = ''Insider Threat''"
    and s3: "drawn_attack_source (\<lambda>i. 3, 0) \<noteq> ''Insider Threat''"
    by (simp_all add: s ATTACK_SOURCES_def)
  show ?thesis
    using attacker_origin_rule [of "(\<lambda>i. 2, 0)"] attacker_origin_rule [of "(\<lambda>i. 3, 0)"] s2 s3
    by (simp add: Let_def)
qed

lemma timestamps_of_records:
  "map timestamp (fst (generate_records n g)) =
     map (\<lambda>i. int (raw_at g (20 * i + 19) mod nat (total_seconds + 1))) [0..<n]"
proof (induction n arbitrary: g)
  case 0
  then show ?case by simp
next
  case (Suc n)
  have "map timestamp (fst (generate_records (Suc n) g)) =
      timestamp (fst (generate_attack_record g)) # map timestamp (fst (generate_records n (adv g 20)))"
    by (simp add: split_def Let_def gen_state)
  also have "\<dots> = int (raw_at g 19 mod nat (total_seconds + 1)) #
      map (\<lambda>i. int (raw_at g (20 * Suc i + 19) mod nat (total_seconds + 1))) [0..<n]"
    by (simp add: gen_timestamp Suc.IH adv_simps add.commute)
  also have "\<dots> = map (\<lambda>i. int (raw_at g (20 * i + 19) mod nat (total_seconds + 1))) [0..<Suc n]"
    by (simp add: upt_conv_Cons map_Suc_upt [symmetric] del: upt_Suc)
  finally show ?case .
qed

text \<open>
  C4. The timestamp of the \<open>i\<close>-th record generated is read from the same seeded stream of
  draws as the categorical fields (it is the twentieth draw of the record's call,
  \<open>timestamps_of_records\<close>). Hence two runs whose seeded generator delivers the same draws
  produce the same sequence of timestamps: the timestamps do not differ between runs.
\<close>

theorem timestamps_follow_seed:
  assumes "\<forall>k. raw_at g k = raw_at g' k"
  shows "map timestamp (fst (generate_records n g)) = map timestamp (fst (generate_records n g'))"
  by (simp add: timestamps_of_records assms)

theorem timestamps_follow_seed_witness:
  "(\<forall>k. raw_at (\<lambda>i. i, 0) k = raw_at (\<lambda>i. i - 2, 2) k) \<and>
   map timestamp (fst (generate_records 3 (\<lambda>i. i, 0))) =
   map timestamp (fst (generate_records 3 (\<lambda>i. i - 2, 2))) \<and>
   map timestamp (fst (generate_records 3 (\<lambda>i. i, 0))) = [19, 39, 59]"
proof -
  have h: "\<forall>k. raw_at (\<lambda>i. i, 0) k = raw_at (\<lambda>i. i - 2, 2) k" by (simp add: raw_at_def)
  have "map timestamp (fst (generate_records 3 (\<lambda>i. i, 0))) = [19, 39, 59]"
    by (simp add: timestamps_of_records raw_at_def total_seconds_def upt_conv_Cons)
  with timestamps_follow_seed [OF h, of 3] h show ?thesis by simp
qed



section \<open>Properties of the normalizer\<close>

subsection \<open>Columns, and what each placeholder step leaves alone\<close>


lemma lookup_set_col: "lookup (set_col m c v) c' = (if c' = c then Some v else lookup m c')"
  by (simp add: lookup_def set_col_def update_conv')

lemma has_col_lookup: "has_col m c \<longleftrightarrow> lookup m c \<noteq> None"
  by (simp add: has_col_def lookup_def map_of_eq_None_iff)

lemma has_col_set_col: "has_col (set_col m c v) c' \<longleftrightarrow> c' = c \<or> has_col m c'"
  by (simp add: has_col_lookup lookup_set_col)

lemma nrows_set_col: "nrows (set_col m c v) = nrows m"
  by (simp add: set_col_def)

lemma list_all_update:
  "list_all P al \<Longrightarrow> P (k, v) \<Longrightarrow> list_all P (AList.update k v al)"
  by (induction al) auto

lemma wf_set_col: "wf_table m \<Longrightarrow> length v = nrows m \<Longrightarrow> wf_table (set_col m c v)"
  by (simp add: wf_table_def set_col_def distinct_update list_all_update)

lemma wf_lookup_length: "wf_table m \<Longrightarrow> lookup m c = Some v \<Longrightarrow> length v = nrows m"
  by (auto simp: wf_table_def lookup_def list_all_iff dest!: map_of_SomeD)

lemma extends_refl: "extends T m m"
  by (simp add: extends_def)

lemma extends_trans: "extends T m m' \<Longrightarrow> extends T' m' m'' \<Longrightarrow> extends (T \<union> T') m m''"
  unfolding extends_def has_col_lookup by (metis Un_iff)

lemma extends_mono: "extends T m m' \<Longrightarrow> T \<subseteq> T' \<Longrightarrow> extends T' m m'"
  unfolding extends_def by blast

lemma extends_set_col:
  "\<not> has_col m c \<Longrightarrow> (wf_table m \<longrightarrow> length v = nrows m) \<Longrightarrow> extends {c} m (set_col m c v)"
  by (auto simp: extends_def lookup_set_col nrows_set_col wf_set_col)

lemma extends_set_col_same:
  "lookup m c = Some v \<Longrightarrow> extends {c} m (set_col m c v)"
  by (auto simp: extends_def lookup_set_col nrows_set_col wf_set_col wf_lookup_length)

lemma extends_has_col: "extends T m m' \<Longrightarrow> has_col m c \<Longrightarrow> has_col m' c"
  by (simp add: extends_def has_col_lookup)

lemma extends_lookup: "extends T m m' \<Longrightarrow> has_col m c \<or> c \<notin> T \<Longrightarrow> lookup m' c = lookup m c"
  unfolding extends_def by blast

lemma extends_nrows: "extends T m m' \<Longrightarrow> nrows m' = nrows m"
  by (simp add: extends_def)

lemma extends_wf: "extends T m m' \<Longrightarrow> wf_table m \<Longrightarrow> wf_table m'"
  by (simp add: extends_def)

lemma length_draws: "length (fst (draws n g)) = n"
  by (induction n arbitrary: g) (auto simp: split_def Let_def)

lemma sized_choice_cells: "sized (choice_cells vocab)"
  by (simp add: sized_def choice_cells_def np_choice_def split_def Let_def length_draws)

lemma sized_anomaly_scores: "sized (anomaly_scores L)"
  by (simp add: sized_def anomaly_scores_def np_beta_def split_def Let_def length_draws)

lemma sized_randint_cells: "sized (randint_cells lo hi)"
  by (simp add: sized_def randint_cells_def np_randint_size_def split_def Let_def length_draws)

lemma sized_destination_ports: "sized destination_ports"
  by (simp add: sized_def destination_ports_def np_choice_def split_def Let_def length_draws)

lemma length_generate_ips: "length (fst (generate_ips n g)) = n"
  by (induction n arbitrary: g) (auto simp: split_def Let_def)

lemma sized_generate_ips: "sized generate_ips"
  by (simp add: sized_def length_generate_ips)

lemma sized_weighted_severity_levels: "sized weighted_severity_levels"
  by (simp add: sized_def weighted_severity_levels_def np_choice_p_def split_def Let_def length_draws)

lemma sizedD: "sized sample \<Longrightarrow> length (fst (sample n g)) = n"
  unfolding sized_def by blast

lemma extends_fill: "sized sample \<Longrightarrow> extends {c} (fst s) (fst (fill c sample s))"
  by (auto simp: fill_def split_def Let_def extends_refl sizedD intro!: extends_set_col)

lemma has_col_fill: "has_col (fst (fill c sample s)) c"
  by (simp add: fill_def split_def Let_def has_col_set_col)

lemma extends_then_fill:
  "extends T m (fst s) \<Longrightarrow> sized sample \<Longrightarrow> extends (insert c T) m (fst (fill c sample s))"
  using extends_trans [OF _ extends_fill, of T m s sample c] by simp

lemma extends_ensure_attack_type: "extends {''Attack Type''} (fst s) (fst (ensure_attack_type s))"
proof (cases "lookup (fst s) ''Attack Type''")
  case (Some v)
  then show ?thesis
    by (simp add: ensure_attack_type_def split_def extends_set_col_same)
next
  case None
  then have absent: "\<not> has_col (fst s) ''Attack Type''" by (simp add: has_col_lookup)
  show ?thesis
  proof (cases "lookup (fst s) ''attack_type''")
    case (Some v)
    with None absent show ?thesis
      by (auto simp: ensure_attack_type_def split_def wf_lookup_length intro!: extends_set_col)
  next
    case None': None
    with None absent show ?thesis
      by (auto simp: ensure_attack_type_def split_def Let_def
          sizedD [OF sized_choice_cells] intro!: extends_set_col)
  qed
qed

lemma has_attack_type: "has_col (fst (ensure_attack_type s)) ''Attack Type''"
  by (auto simp: ensure_attack_type_def split_def Let_def has_col_set_col split: option.splits)

lemma extends_ensure_action_taken: "extends {''Action Taken''} (fst s) (fst (ensure_action_taken s))"
proof (cases "has_col (fst s) ''Action Taken''")
  case True
  then show ?thesis by (simp add: ensure_action_taken_def split_def extends_refl)
next
  case False
  show ?thesis
  proof (cases "lookup (fst s) ''outcome''")
    case (Some v)
    with False show ?thesis
      by (auto simp: ensure_action_taken_def split_def wf_lookup_length intro!: extends_set_col)
  next
    case None
    with False show ?thesis
      using extends_fill [OF sized_choice_cells, of "''Action Taken''" s actions]
      by (simp add: ensure_action_taken_def split_def)
  qed
qed

lemma extends_ensure_ip_addresses:
  assumes "ensure_ip_addresses s = Inr s'"
  shows "extends {''Source IP Address'', ''Destination IP Address''} (fst s) (fst s')"
proof -
  let ?s1 = "fill ''Source IP Address'' generate_ips s"
  have e1: "extends {''Source IP Address''} (fst s) (fst ?s1)"
    by (rule extends_fill [OF sized_generate_ips])
  have e2: "extends {''Destination IP Address'', ''Source IP Address''} (fst s)
      (fst (fill ''Destination IP Address'' generate_ips ?s1))"
    by (rule extends_then_fill [OF e1 sized_generate_ips])
  have "s' = ?s1 \<or> s' = fill ''Destination IP Address'' generate_ips ?s1"
    using assms by (auto simp: ensure_ip_addresses_def split_def Let_def split: if_splits)
  then show ?thesis
    using extends_mono [OF e1, of "{''Source IP Address'', ''Destination IP Address''}"]
      extends_mono [OF e2, of "{''Source IP Address'', ''Destination IP Address''}"] by auto
qed

lemma length_attack_signatures: "length (fst (attack_signatures L v g)) = length v"
  by (induction v arbitrary: g) (auto simp: split_def Let_def)

lemma extends_ensure_attack_signature:
  assumes "ensure_attack_signature L s = Inr s'"
  shows "extends {''Attack Signature''} (fst s) (fst s')"
  using assms
  by (auto simp: ensure_attack_signature_def split_def Let_def extends_refl
      length_attack_signatures wf_lookup_length
      split: if_splits option.splits intro!: extends_set_col)

lemma map_result_length: "map_result f xs = Inr ys \<Longrightarrow> length ys = length xs"
  by (induction xs arbitrary: ys) (auto split: sum.splits)

lemma extends_ensure_severity_level:
  assumes "ensure_severity_level s = Inr s'"
  shows "extends {''Severity Level''} (fst s) (fst s')"
proof (cases "has_col (fst s) ''Severity Level''")
  case True
  with assms show ?thesis by (auto simp: ensure_severity_level_def split_def extends_refl)
next
  case False
  with assms show ?thesis
    using extends_fill [OF sized_weighted_severity_levels, of "''Severity Level''" s]
    by (auto simp: ensure_severity_level_def split_def and_then_def
        wf_lookup_length map_result_length
        split: option.splits sum.splits intro!: extends_set_col)
qed

lemma extends_ensure_timestamp:
  assumes "ensure_timestamp L clk m = Inr m'"
  shows "extends {''Timestamp''} m m'"
  using assms
  by (auto simp: ensure_timestamp_def and_then_def extends_refl
      wf_lookup_length map_result_length
      split: if_splits option.splits sum.splits intro!: extends_set_col)

lemma extends_head_steps: "extends head_cols (fst s) (fst (head_steps L s))"
proof -
  let ?s1 = "fill ''Device Information'' (choice_cells device_types) s"
  let ?s2 = "ensure_attack_type ?s1"
  let ?s3 = "fill ''Anomaly Scores'' (anomaly_scores L) ?s2"
  let ?s4 = "fill ''Packet Length'' (randint_cells 64 1500) ?s3"
  let ?s5 = "fill ''Source Port'' (randint_cells 1024 65535) ?s4"
  let ?s6 = "fill ''Destination Port'' destination_ports ?s5"
  have 1: "extends {''Device Information''} (fst s) (fst ?s1)"
    by (rule extends_fill [OF sized_choice_cells])
  have 2: "extends ({''Device Information''} \<union> {''Attack Type''}) (fst s) (fst ?s2)"
    by (rule extends_trans [OF 1 extends_ensure_attack_type])
  note 3 = extends_then_fill [OF 2 sized_anomaly_scores, of "''Anomaly Scores''" L]
  note 4 = extends_then_fill [OF 3 sized_randint_cells, of "''Packet Length''" 64 1500]
  note 5 = extends_then_fill [OF 4 sized_randint_cells, of "''Source Port''" 1024 65535]
  note 6 = extends_then_fill [OF 5 sized_destination_ports, of "''Destination Port''"]
  show ?thesis
    unfolding head_steps_def by (rule extends_mono [OF 6]) (auto simp: head_cols_def)
qed

lemma extends_middle_steps: "extends middle_cols (fst s) (fst (middle_steps s))"
proof -
  let ?s1 = "fill ''Protocol'' (choice_cells protocols) s"
  let ?s2 = "ensure_action_taken ?s1"
  have 1: "extends {''Protocol''} (fst s) (fst ?s1)"
    by (rule extends_fill [OF sized_choice_cells])
  have 2: "extends ({''Protocol''} \<union> {''Action Taken''}) (fst s) (fst ?s2)"
    by (rule extends_trans [OF 1 extends_ensure_action_taken])
  note 3 = extends_then_fill [OF 2 sized_choice_cells, of "''IDS/IPS Alerts''" alert_types]
  note 4 = extends_then_fill [OF 3 sized_choice_cells, of "''Malware Indicators''" indicators]
  note 5 = extends_then_fill [OF 4 sized_choice_cells, of "''Firewall Logs''" log_types]
  note 6 = extends_then_fill [OF 5 sized_choice_cells, of "''Proxy Information''" proxy_info]
  show ?thesis
    unfolding middle_steps_def by (rule extends_mono [OF 6]) (auto simp: middle_cols_def)
qed

lemma has_attack_type_head: "has_col (fst (head_steps L s)) ''Attack Type''"
proof -
  let ?s2 = "ensure_attack_type (fill ''Device Information'' (choice_cells device_types) s)"
  let ?s3 = "fill ''Anomaly Scores'' (anomaly_scores L) ?s2"
  let ?s4 = "fill ''Packet Length'' (randint_cells 64 1500) ?s3"
  let ?s5 = "fill ''Source Port'' (randint_cells 1024 65535) ?s4"
  have "has_col (fst ?s2) ''Attack Type''" by (rule has_attack_type)
  then have "has_col (fst ?s3) ''Attack Type''"
    by (rule extends_has_col [OF extends_fill [OF sized_anomaly_scores]])
  then have "has_col (fst ?s4) ''Attack Type''"
    by (rule extends_has_col [OF extends_fill [OF sized_randint_cells]])
  then have "has_col (fst ?s5) ''Attack Type''"
    by (rule extends_has_col [OF extends_fill [OF sized_randint_cells]])
  then show ?thesis
    unfolding head_steps_def by (rule extends_has_col [OF extends_fill [OF sized_destination_ports]])
qed


subsection \<open>The table mapped as a whole\<close>


lemma ensure_coordinates_nrows: "nrows (ensure_coordinates m) = nrows m"
  by (simp add: ensure_coordinates_def nrows_set_col split: option.splits)

lemma ensure_coordinates_lookup:
  "c \<noteq> ''Latitude'' \<Longrightarrow> c \<noteq> ''Longitude'' \<Longrightarrow> lookup (ensure_coordinates m) c = lookup m c"
  by (simp add: ensure_coordinates_def lookup_set_col split: option.splits)

lemma ensure_coordinates_wf: "wf_table m \<Longrightarrow> wf_table (ensure_coordinates m)"
  by (auto simp: ensure_coordinates_def nrows_set_col wf_lookup_length
      split: option.splits intro!: wf_set_col)

lemma coerce_timestamp_nrows: "nrows (coerce_timestamp L now c m) = nrows m"
  by (simp add: coerce_timestamp_def nrows_set_col split: option.splits)

lemma coerce_timestamp_lookup:
  "lookup (coerce_timestamp L now c m) c' =
     (if c' = c then map_option (map (to_datetime_coerce L now)) (lookup m c) else lookup m c')"
  by (simp add: coerce_timestamp_def lookup_set_col split: option.splits)

lemma coerce_timestamp_wf: "wf_table m \<Longrightarrow> wf_table (coerce_timestamp L now c m)"
  by (auto simp: coerce_timestamp_def wf_lookup_length split: option.splits intro!: wf_set_col)

lemma extends_canonical_step:
  "extends {c} m (if has_col m c then m else set_col m c (replicate (nrows m) NaN))"
  by (simp add: extends_refl extends_set_col)

lemma extends_foldl_canonical:
  "extends (set cs) m
     (foldl (\<lambda>m c. if has_col m c then m else set_col m c (replicate (nrows m) NaN)) m cs)"
proof (induction cs arbitrary: m)
  case Nil
  show ?case by (simp add: extends_refl)
next
  case (Cons c cs)
  have "extends ({c} \<union> set cs) m
     (foldl (\<lambda>m c. if has_col m c then m else set_col m c (replicate (nrows m) NaN))
        (if has_col m c then m else set_col m c (replicate (nrows m) NaN)) cs)"
    by (rule extends_trans [OF extends_canonical_step Cons.IH])
  then show ?case by simp
qed

lemma extends_ensure_canonical: "extends (set CANONICAL_COLUMNS) m (ensure_canonical m)"
  unfolding ensure_canonical_def by (rule extends_foldl_canonical)

lemma tail_steps_nrows: "nrows (tail_steps L clk m) = nrows m"
  by (simp add: tail_steps_def extends_nrows [OF extends_ensure_canonical]
      coerce_timestamp_nrows ensure_coordinates_nrows)

lemma tail_steps_wf: "wf_table m \<Longrightarrow> wf_table (tail_steps L clk m)"
  unfolding tail_steps_def
  by (intro extends_wf [OF extends_ensure_canonical] coerce_timestamp_wf ensure_coordinates_wf)

lemma tail_steps_lookup_present:
  assumes "has_col m c" "c \<noteq> ''Timestamp''" "c \<noteq> ''Latitude''" "c \<noteq> ''Longitude''"
  shows "lookup (tail_steps L clk m) c = lookup m c"
proof -
  let ?m2 = "coerce_timestamp L (now_coerced clk) ''Timestamp'' (ensure_coordinates m)"
  have l2: "lookup ?m2 c = lookup m c"
    using assms by (simp add: coerce_timestamp_lookup ensure_coordinates_lookup)
  then have "has_col ?m2 c" using assms(1) by (simp add: has_col_lookup)
  then have "lookup (ensure_canonical ?m2) c = lookup ?m2 c"
    using extends_lookup [OF extends_ensure_canonical] by blast
  with l2 show ?thesis by (simp add: tail_steps_def)
qed

lemma tail_steps_lookup_other:
  assumes "c \<notin> set CANONICAL_COLUMNS" "c \<noteq> ''Latitude''" "c \<noteq> ''Longitude''"
  shows "lookup (tail_steps L clk m) c = lookup m c"
proof -
  let ?m2 = "coerce_timestamp L (now_coerced clk) ''Timestamp'' (ensure_coordinates m)"
  from assms(1) have "c \<noteq> ''Timestamp''" by (auto simp: CANONICAL_COLUMNS_def)
  then have l2: "lookup ?m2 c = lookup m c"
    using assms by (simp add: coerce_timestamp_lookup ensure_coordinates_lookup)
  have "lookup (ensure_canonical ?m2) c = lookup ?m2 c"
    using extends_lookup [OF extends_ensure_canonical] assms(1) by blast
  with l2 show ?thesis by (simp add: tail_steps_def)
qed

lemma tail_steps_lookup_timestamp:
  assumes "lookup m ''Timestamp'' = Some v"
  shows "lookup (tail_steps L clk m) ''Timestamp'' = Some (map (to_datetime_coerce L (now_coerced clk)) v)"
proof -
  let ?m2 = "coerce_timestamp L (now_coerced clk) ''Timestamp'' (ensure_coordinates m)"
  have l2: "lookup ?m2 ''Timestamp'' = Some (map (to_datetime_coerce L (now_coerced clk)) v)"
    using assms by (simp add: coerce_timestamp_lookup ensure_coordinates_lookup)
  then have "has_col ?m2 ''Timestamp''" by (simp add: has_col_lookup)
  then have "lookup (ensure_canonical ?m2) ''Timestamp'' = lookup ?m2 ''Timestamp''"
    using extends_lookup [OF extends_ensure_canonical] by blast
  with l2 show ?thesis by (simp add: tail_steps_def)
qed

lemma build_mapped_cases:
  assumes "build_mapped L clk df g = Inr m"
  obtains m0 s1 s2 s3 where
    "ensure_timestamp L clk df = Inr m0"
    "ensure_ip_addresses (head_steps L (m0, g)) = Inr s1"
    "ensure_attack_signature L (middle_steps s1) = Inr s2"
    "ensure_severity_level s2 = Inr s3"
    "m = tail_steps L clk (fst s3)"
  using assms by (auto simp: build_mapped_def and_then_def split: sum.splits)

lemma extends_to_signature:
  assumes "ensure_timestamp L clk df = Inr m0"
    "ensure_ip_addresses (head_steps L (m0, g)) = Inr s1"
    "ensure_attack_signature L (middle_steps s1) = Inr s2"
  shows "extends early_cols df (fst s2)"
proof -
  have 0: "extends {''Timestamp''} df m0" by (rule extends_ensure_timestamp [OF assms(1)])
  have 1: "extends head_cols m0 (fst (head_steps L (m0, g)))"
    using extends_head_steps [of "(m0, g)" L] by simp
  note 2 = extends_ensure_ip_addresses [OF assms(2)]
  note 3 = extends_middle_steps [of s1]
  note 4 = extends_ensure_attack_signature [OF assms(3)]
  note c = extends_trans [OF extends_trans [OF extends_trans [OF extends_trans [OF 0 1] 2] 3] 4]
  show ?thesis unfolding early_cols_def by (rule c)
qed

lemma build_mapped_extends:
  assumes "build_mapped L clk df g = Inr m"
  obtains m3 where "extends (early_cols \<union> {''Severity Level''}) df m3" "m = tail_steps L clk m3"
proof -
  from assms obtain m0 s1 s2 s3 where
    s: "ensure_timestamp L clk df = Inr m0"
    "ensure_ip_addresses (head_steps L (m0, g)) = Inr s1"
    "ensure_attack_signature L (middle_steps s1) = Inr s2"
    "ensure_severity_level s2 = Inr s3"
    "m = tail_steps L clk (fst s3)"
    by (rule build_mapped_cases)
  have "extends (early_cols \<union> {''Severity Level''}) df (fst s3)"
    by (rule extends_trans [OF extends_to_signature [OF s(1,2,3)] extends_ensure_severity_level [OF s(4)]])
  then show ?thesis using s(5) by (rule that)
qed

lemma early_cols_canonical: "early_cols \<union> {''Severity Level''} = set CANONICAL_COLUMNS"
  by (auto simp: early_cols_def head_cols_def middle_cols_def CANONICAL_COLUMNS_def)

lemma build_mapped_nrows: "build_mapped L clk df g = Inr m \<Longrightarrow> nrows m = nrows df"
  by (erule build_mapped_extends) (simp add: tail_steps_nrows extends_nrows)

lemma build_mapped_wf: "build_mapped L clk df g = Inr m \<Longrightarrow> wf_table df \<Longrightarrow> wf_table m"
  by (erule build_mapped_extends) (simp add: tail_steps_wf extends_wf)

lemma build_mapped_lookup_other:
  assumes "build_mapped L clk df g = Inr m"
    "c \<notin> set CANONICAL_COLUMNS" "c \<noteq> ''Latitude''" "c \<noteq> ''Longitude''"
  shows "lookup m c = lookup df c"
proof -
  from assms(1) obtain m3 where
    e: "extends (early_cols \<union> {''Severity Level''}) df m3" and m: "m = tail_steps L clk m3"
    by (rule build_mapped_extends)
  have "lookup m3 c = lookup df c"
    using extends_lookup [OF e] assms(2) unfolding early_cols_canonical by blast
  then show ?thesis by (simp add: m tail_steps_lookup_other assms)
qed

lemma build_mapped_lookup_present:
  assumes "build_mapped L clk df g = Inr m"
    "has_col df c" "c \<noteq> ''Timestamp''" "c \<noteq> ''Latitude''" "c \<noteq> ''Longitude''"
  shows "lookup m c = lookup df c"
proof -
  from assms(1) obtain m3 where
    e: "extends (early_cols \<union> {''Severity Level''}) df m3" and m: "m = tail_steps L clk m3"
    by (rule build_mapped_extends)
  have l: "lookup m3 c = lookup df c"
    using extends_lookup [OF e] assms(2) by blast
  have "has_col m3 c" by (rule extends_has_col [OF e assms(2)])
  then show ?thesis by (simp add: m tail_steps_lookup_present assms l)
qed

lemma ensure_timestamp_has: "ensure_timestamp L clk df = Inr m0 \<Longrightarrow> has_col m0 ''Timestamp''"
  by (auto simp: ensure_timestamp_def and_then_def has_col_set_col
      split: if_splits option.splits sum.splits)

lemma ensure_timestamp_created:
  "\<not> has_col df ''Timestamp'' \<Longrightarrow> lookup df ''Year'' = None \<Longrightarrow>
     ensure_timestamp L clk df = Inr (set_col df ''Timestamp'' (replicate (nrows df) (TimeV (now_created clk))))"
  by (simp add: ensure_timestamp_def)

lemma build_mapped_timestamp:
  assumes "build_mapped L clk df g = Inr m"
  obtains v0 m0 where "ensure_timestamp L clk df = Inr m0" "lookup m0 ''Timestamp'' = Some v0"
    "lookup m ''Timestamp'' = Some (map (to_datetime_coerce L (now_coerced clk)) v0)"
proof -
  from assms obtain m0 s1 s2 s3 where
    s: "ensure_timestamp L clk df = Inr m0"
    "ensure_ip_addresses (head_steps L (m0, g)) = Inr s1"
    "ensure_attack_signature L (middle_steps s1) = Inr s2"
    "ensure_severity_level s2 = Inr s3"
    "m = tail_steps L clk (fst s3)"
    by (rule build_mapped_cases)
  have h: "has_col m0 ''Timestamp''" by (rule ensure_timestamp_has [OF s(1)])
  then obtain v0 where v0: "lookup m0 ''Timestamp'' = Some v0" by (auto simp: has_col_lookup)
  have 1: "extends head_cols m0 (fst (head_steps L (m0, g)))"
    using extends_head_steps [of "(m0, g)" L] by simp
  note c = extends_trans [OF extends_trans [OF extends_trans [OF extends_trans [OF 1
    extends_ensure_ip_addresses [OF s(2)]] extends_middle_steps [of s1]]
    extends_ensure_attack_signature [OF s(3)]] extends_ensure_severity_level [OF s(4)]]
  have "lookup (fst s3) ''Timestamp'' = Some v0"
    using extends_lookup [OF c, of "''Timestamp''"] h v0 by simp
  then have "lookup m ''Timestamp'' = Some (map (to_datetime_coerce L (now_coerced clk)) v0)"
    unfolding s(5) by (rule tail_steps_lookup_timestamp)
  with s(1) v0 show ?thesis by (rule that)
qed


subsection \<open>The standardized table: columns, lengths and types\<close>


lemma set_col_nil: "set_col \<lparr>nrows = n, columns = []\<rparr> c v = \<lparr>nrows = n, columns = [(c, v)]\<rparr>"
  by (simp add: set_col_def)

lemma set_col_snoc:
  "c \<notin> fst ` set al \<Longrightarrow>
   set_col \<lparr>nrows = n, columns = al\<rparr> c v = \<lparr>nrows = n, columns = al @ [(c, v)]\<rparr>"
  by (induction al) (auto simp: set_col_def)

lemma t1: "set_col (set_col \<lparr>nrows = n, columns = []\<rparr> ''timestamp'' ts) ''attack_type'' v
   = \<lparr>nrows = n, columns = [(''timestamp'', ts), (''attack_type'', v)]\<rparr>"
  by (simp add: set_col_nil set_col_snoc)


lemma astype_str_col_explicit:
  "map_of al c = Some v \<Longrightarrow>
   astype_str_col L c \<lparr>nrows = n, columns = al\<rparr> =
     \<lparr>nrows = n, columns = AList.update c (map (\<lambda>x. StrV (astype_str L x)) v) al\<rparr>"
  by (simp add: astype_str_col_def lookup_def set_col_def)

lemma standardize_eq:
  "standardize L clk m =
     and_then (std_timestamp L clk m) (\<lambda>ts. Inr
       \<lparr>nrows = nrows m,
        columns =
         [(''timestamp'', ts),
          (''attack_type'', map (\<lambda>x. StrV (astype_str L x)) (std_attack_type m)),
          (''target_system'', map (\<lambda>x. StrV (astype_str L x)) (std_target_system m)),
          (''location'', map (\<lambda>x. StrV (astype_str L x)) (std_location m)),
          (''industry'', std_industry m),
          (''attack_severity'', std_attack_severity L m),
          (''data_compromised_GB'', std_data_compromised L m),
          (''outcome'', std_outcome L m),
          (''attacker_ip'', std_attacker_ip m),
          (''target_ip'', std_target_ip m),
          (''mitigation_method'', std_mitigation_method m),
          (''attack_duration_min'', std_attack_duration L m),
          (''response_time_min'', std_response_time L m),
          (''security_tools_used'', std_security_tools m),
          (''user_role'', std_user_role m)]\<rparr>)"
  unfolding standardize_def Let_def
  by (simp add: set_col_nil set_col_snoc astype_str_col_explicit)


lemma is_num_fillna_to_numeric: "is_num d \<Longrightarrow> is_num (fillna d (to_numeric L c))"
  by (cases c) (auto split: option.splits)

lemma is_num_scale: "is_num c \<Longrightarrow> is_num (scale k c)"
  by (cases c) auto

lemma apply_num_on_num: "is_num c \<Longrightarrow> apply_num f c = f (the (num_of c))"
  by (cases c) (auto simp: apply_num_def)

lemma map_result_all:
  "map_result f xs = Inr ys \<Longrightarrow> (\<And>x y. f x = Inr y \<Longrightarrow> P y) \<Longrightarrow> list_all P ys"
  by (induction xs arbitrary: ys) (auto split: sum.splits)

lemma is_time_coerce: "is_time (to_datetime_coerce L now c)"
  by (cases c) (auto split: option.splits)

lemma coerce_on_time: "is_time c \<Longrightarrow> to_datetime_coerce L now c = c"
  by (cases c) auto

lemma strict_is_time: "to_datetime_strict L c = Inr y \<Longrightarrow> is_time y"
  by (auto simp: to_datetime_strict_def split: option.splits)

lemma std_timestamp_typed: "std_timestamp L clk m = Inr ts \<Longrightarrow> list_all is_time ts"
  by (auto simp: std_timestamp_def as_series_def list_all_iff is_time_coerce
      split: option.splits dest!: map_result_all [where P = is_time] intro: strict_is_time)

lemma std_timestamp_length:
  "std_timestamp L clk m = Inr ts \<Longrightarrow> wf_table m \<Longrightarrow> length ts = nrows m"
  by (auto simp: std_timestamp_def as_series_def wf_lookup_length
      split: option.splits dest: map_result_length)

lemma length_as_series_get:
  "wf_table m \<Longrightarrow> length (as_series (nrows m) d) = nrows m \<Longrightarrow>
     length (as_series (nrows m) (df_get m c d)) = nrows m"
  by (auto simp: df_get_def as_series_def wf_lookup_length split: option.splits)

lemma length_as_series_scalar: "length (as_series n (Scalar c)) = n"
  by (simp add: as_series_def)

lemma length_as_series_series: "wf_table m \<Longrightarrow> lookup m c = Some v \<Longrightarrow> length (as_series (nrows m) (Series v)) = nrows m"
  by (simp add: as_series_def wf_lookup_length)

lemmas length_std = length_as_series_get length_as_series_scalar length_as_series_series wf_lookup_length

lemma std_lengths:
  assumes "wf_table m"
  shows "length (std_attack_type m) = nrows m" "length (std_target_system m) = nrows m"
    "length (std_location m) = nrows m" "length (std_industry m) = nrows m"
    "length (std_attack_severity L m) = nrows m" "length (std_data_compromised L m) = nrows m"
    "length (std_outcome L m) = nrows m" "length (std_attacker_ip m) = nrows m"
    "length (std_target_ip m) = nrows m" "length (std_mitigation_method m) = nrows m"
    "length (std_attack_duration L m) = nrows m" "length (std_response_time L m) = nrows m"
    "length (std_security_tools m) = nrows m" "length (std_user_role m) = nrows m"
  using assms
  by (auto simp: std_attack_type_def std_target_system_def std_location_def std_industry_def
      std_attack_severity_def std_data_compromised_def std_outcome_def std_attacker_ip_def
      std_target_ip_def std_mitigation_method_def std_attack_duration_def std_response_time_def
      std_security_tools_def std_user_role_def length_std split: option.splits)

lemma std_attack_severity_num: "list_all is_num (std_attack_severity L m)"
  by (auto simp: std_attack_severity_def list_all_iff as_series_def is_num_fillna_to_numeric
      apply_num_on_num split: option.splits)

lemma sev_to_num_range: "sev_to_num x \<in> {2, 5, 7, 9}"
  by (simp add: sev_to_num_def)

lemma std_attack_severity_range:
  "lookup m ''attack_severity'' = None \<Longrightarrow> list_all in_1_10 (std_attack_severity L m)"
  by (auto simp: std_attack_severity_def list_all_iff as_series_def is_num_fillna_to_numeric
      apply_num_on_num sev_to_num_def loss_to_sev_def users_to_sev_def split: option.splits)

lemma std_data_compromised_num: "list_all is_num (std_data_compromised L m)"
  by (auto simp: std_data_compromised_def list_all_iff as_series_def is_num_fillna_to_numeric
      is_num_scale split: option.splits)

lemma std_attack_duration_num: "list_all is_num (std_attack_duration L m)"
  by (auto simp: std_attack_duration_def list_all_iff is_num_fillna_to_numeric)

lemma std_response_time_num: "list_all is_num (std_response_time L m)"
  by (auto simp: std_response_time_def list_all_iff is_num_fillna_to_numeric)

lemma standardize_shape:
  assumes "standardize L clk m = Inr out"
  shows "map fst (columns out) = canonical_fields" "nrows out = nrows m"
    "wf_table m \<Longrightarrow> wf_table out"
    "list_all is_time (column out ''timestamp'')"
    "list_all is_str (column out ''attack_type'')"
    "list_all is_str (column out ''target_system'')"
    "list_all is_str (column out ''location'')"
    "list_all is_num (column out ''attack_severity'')"
    "list_all is_num (column out ''data_compromised_GB'')"
    "list_all is_num (column out ''attack_duration_min'')"
    "list_all is_num (column out ''response_time_min'')"
    "column out ''attack_severity'' = std_attack_severity L m"
    "column out ''industry'' = std_industry m"
    "column out ''outcome'' = std_outcome L m"
proof -
  from assms obtain ts where ts: "std_timestamp L clk m = Inr ts"
    by (auto simp: standardize_eq and_then_def split: sum.splits)
  note out = assms [unfolded standardize_eq ts and_then_def sum.case, simplified, symmetric]
  show "map fst (columns out) = canonical_fields" by (simp add: out canonical_fields_def)
  show "nrows out = nrows m" by (simp add: out)
  show "wf_table out" if "wf_table m"
    using that by (simp add: out wf_table_def std_lengths std_timestamp_length [OF ts])
  show "list_all is_time (column out ''timestamp'')"
    by (simp add: out column_def lookup_def std_timestamp_typed [OF ts])
  show "list_all is_str (column out ''attack_type'')"
    "list_all is_str (column out ''target_system'')"
    "list_all is_str (column out ''location'')"
    by (simp_all add: out column_def lookup_def list_all_iff)
  show "list_all is_num (column out ''attack_severity'')"
    "list_all is_num (column out ''data_compromised_GB'')"
    "list_all is_num (column out ''attack_duration_min'')"
    "list_all is_num (column out ''response_time_min'')"
    by (simp_all add: out column_def lookup_def std_attack_severity_num std_data_compromised_num
        std_attack_duration_num std_response_time_num)
  show "column out ''attack_severity'' = std_attack_severity L m"
    "column out ''industry'' = std_industry m"
    "column out ''outcome'' = std_outcome L m"
    by (simp_all add: out column_def lookup_def)
qed


subsection \<open>When the normalizer returns\<close>


lemma map_result_ok:
  "list_all (\<lambda>x. \<exists>y. f x = Inr y) xs \<Longrightarrow> \<exists>ys. map_result f xs = Inr ys"
  by (induction xs) auto

lemma map_result_map: "(\<And>x. x \<in> set xs \<Longrightarrow> f x = Inr (h x)) \<Longrightarrow> map_result f xs = Inr (map h xs)"
  by (induction xs) auto

lemma apply_label_ok: "comparable c \<Longrightarrow> \<exists>y. apply_label f c = Inr y"
  by (cases c) auto

lemma ensure_timestamp_ok:
  assumes "timestamp_ok L df"
  shows "\<exists>m0. ensure_timestamp L clk df = Inr m0"
proof (cases "has_col df ''Timestamp''")
  case True
  then show ?thesis by (simp add: ensure_timestamp_def)
next
  case False
  show ?thesis
  proof (cases "lookup df ''Year''")
    case None
    with False show ?thesis by (simp add: ensure_timestamp_def)
  next
    case (Some ys)
    with False assms have
      "list_all (\<lambda>y. parse_datetime L (StrV (astype_str L y @ ''-01-01'')) \<noteq> None) ys"
      by (simp add: timestamp_ok_def)
    then have "list_all (\<lambda>y. \<exists>t. to_datetime_strict L (StrV (astype_str L y @ ''-01-01'')) = Inr t) ys"
      by (auto simp: list_all_iff to_datetime_strict_def split: option.splits)
    from map_result_ok [OF this] obtain ts where
      "map_result (\<lambda>y. to_datetime_strict L (StrV (astype_str L y @ ''-01-01''))) ys = Inr ts" ..
    with False Some show ?thesis by (simp add: ensure_timestamp_def and_then_def)
  qed
qed

lemma ensure_ip_addresses_ok:
  assumes "ip_ok (fst s)"
  shows "\<exists>s'. ensure_ip_addresses s = Inr s'"
proof -
  let ?s1 = "fill ''Source IP Address'' generate_ips s"
  have e1: "extends {''Source IP Address''} (fst s) (fst ?s1)"
    by (rule extends_fill [OF sized_generate_ips])
  have n: "nrows (fst ?s1) = nrows (fst s)" by (rule extends_nrows [OF e1])
  have d: "has_col (fst s) ''Destination IP Address'' \<Longrightarrow> has_col (fst ?s1) ''Destination IP Address''"
    by (rule extends_has_col [OF e1])
  have "\<not> isl (ensure_ip_addresses s)"
    using assms n d by (auto simp: ensure_ip_addresses_def ip_ok_def split_def Let_def)
  then show ?thesis by (cases "ensure_ip_addresses s") auto
qed

lemma ensure_attack_signature_ok:
  assumes "has_col (fst s) ''Attack Type''"
  shows "\<exists>s'. ensure_attack_signature L s = Inr s'"
proof -
  have "\<not> isl (ensure_attack_signature L s)"
    using assms by (auto simp: ensure_attack_signature_def has_col_lookup split_def Let_def)
  then show ?thesis by (cases "ensure_attack_signature L s") auto
qed

lemma ensure_severity_level_ok:
  assumes "severity_ok (fst s)"
  shows "\<exists>s'. ensure_severity_level s = Inr s'"
proof (cases "has_col (fst s) ''Severity Level''")
  case True
  then have "ensure_severity_level s = Inr (fst s, snd s)"
    by (simp add: ensure_severity_level_def split_def)
  then show ?thesis ..
next
  case False
  have ok: "list_all comparable v \<Longrightarrow> \<exists>ls. map_result (apply_label f) v = Inr ls" for v f
    by (rule map_result_ok) (auto simp: list_all_iff intro: apply_label_ok)
  show ?thesis
  proof (cases "lookup (fst s) ''attack_severity''")
    case (Some v)
    with False assms have "list_all comparable v" by (simp add: severity_ok_def)
    from ok [OF this] obtain ls where "map_result (apply_label severity_label) v = Inr ls" ..
    with False Some have "ensure_severity_level s = Inr (set_col (fst s) ''Severity Level'' ls, snd s)"
      by (simp add: ensure_severity_level_def split_def and_then_def)
    then show ?thesis ..
  next
    case None
    show ?thesis
    proof (cases "lookup (fst s) ''Financial Loss (in Million $)''")
      case (Some v)
      with False None assms have "list_all comparable v" by (simp add: severity_ok_def)
      from ok [OF this] obtain ls where "map_result (apply_label loss_label) v = Inr ls" ..
      with False None Some have
        "ensure_severity_level s = Inr (set_col (fst s) ''Severity Level'' ls, snd s)"
        by (simp add: ensure_severity_level_def split_def and_then_def)
      then show ?thesis ..
    next
      case None': None
      with False None have "ensure_severity_level s =
          Inr (fill ''Severity Level'' weighted_severity_levels (fst s, snd s))"
        by (simp add: ensure_severity_level_def split_def)
      then show ?thesis ..
    qed
  qed
qed

lemma not_early:
  "''Severity Level'' \<notin> early_cols" "''attack_severity'' \<notin> early_cols"
  "''Financial Loss (in Million $)'' \<notin> early_cols"
  by (simp_all add: early_cols_def head_cols_def middle_cols_def)

lemma severity_ok_cong:
  assumes "lookup m' ''Severity Level'' = lookup m ''Severity Level''"
    "lookup m' ''attack_severity'' = lookup m ''attack_severity''"
    "lookup m' ''Financial Loss (in Million $)'' = lookup m ''Financial Loss (in Million $)''"
  shows "severity_ok m' = severity_ok m"
  unfolding severity_ok_def has_col_lookup assms ..

lemma build_mapped_ok:
  assumes "timestamp_ok L df" "ip_ok df" "severity_ok df"
  shows "\<exists>m. build_mapped L clk df g = Inr m"
proof -
  from ensure_timestamp_ok [OF assms(1)] obtain m0 where m0: "ensure_timestamp L clk df = Inr m0" ..
  have e0: "extends {''Timestamp''} df m0" by (rule extends_ensure_timestamp [OF m0])
  let ?sA = "head_steps L (m0, g)"
  have eA: "extends head_cols m0 (fst ?sA)" using extends_head_steps [of "(m0, g)" L] by simp
  note e0A = extends_trans [OF e0 eA]
  have "lookup (fst ?sA) c = lookup df c"
    if "c = ''Source IP Address'' \<or> c = ''Destination IP Address''" for c
    using that by (intro extends_lookup [OF e0A]) (auto simp: head_cols_def)
  then have "ip_ok (fst ?sA)"
    using assms(2) extends_nrows [OF e0A] by (simp add: ip_ok_def has_col_lookup)
  from ensure_ip_addresses_ok [OF this] obtain s1 where s1: "ensure_ip_addresses ?sA = Inr s1" ..
  have "has_col (fst s1) ''Attack Type''"
    by (rule extends_has_col [OF extends_ensure_ip_addresses [OF s1] has_attack_type_head])
  then have "has_col (fst (middle_steps s1)) ''Attack Type''"
    by (rule extends_has_col [OF extends_middle_steps])
  from ensure_attack_signature_ok [OF this] obtain s2 where
    s2: "ensure_attack_signature L (middle_steps s1) = Inr s2" ..
  have e2: "extends early_cols df (fst s2)" by (rule extends_to_signature [OF m0 s1 s2])
  have "severity_ok (fst s2) = severity_ok df"
    by (intro severity_ok_cong extends_lookup [OF e2] disjI2 not_early)
  with assms(3) have "severity_ok (fst s2)" by simp
  from ensure_severity_level_ok [OF this] obtain s3 where s3: "ensure_severity_level s2 = Inr s3" ..
  show ?thesis by (simp add: build_mapped_def and_then_def m0 s1 s2 s3)
qed

lemma map_global_schema_cases:
  assumes "map_global_schema L clk df g = Inr out"
  obtains m where "build_mapped L clk df g = Inr m" "standardize L clk m = Inr out"
  using assms by (auto simp: map_global_schema_def and_then_def split: sum.splits)

lemma standardize_ok:
  "lookup m ''Timestamp'' = Some v \<Longrightarrow> \<exists>out. standardize L clk m = Inr out"
  by (simp add: standardize_eq std_timestamp_def and_then_def)

lemma map_global_schema_ok:
  assumes "timestamp_ok L df" "ip_ok df" "severity_ok df"
  shows "\<exists>out. map_global_schema L clk df g = Inr out"
proof -
  from build_mapped_ok [OF assms] obtain m where m: "build_mapped L clk df g = Inr m" ..
  from build_mapped_timestamp [OF m] obtain v where "lookup m ''Timestamp'' = Some v" by blast
  from standardize_ok [OF this] obtain out where "standardize L clk m = Inr out" ..
  with m show ?thesis by (simp add: map_global_schema_def and_then_def)
qed

lemma ensure_severity_level_from_loss:
  assumes "ensure_severity_level s = Inr s'" "lookup (fst s) ''Severity Level'' = None"
    "lookup (fst s) ''attack_severity'' = None"
    "lookup (fst s) ''Financial Loss (in Million $)'' = Some v"
  shows "\<exists>ls. map_result (apply_label loss_label) v = Inr ls \<and>
              lookup (fst s') ''Severity Level'' = Some ls"
  using assms
  by (auto simp: ensure_severity_level_def split_def has_col_lookup and_then_def lookup_set_col
      split: sum.splits)

lemma build_mapped_severity_from_loss:
  assumes "build_mapped L clk df g = Inr m" "lookup df ''Severity Level'' = None"
    "lookup df ''attack_severity'' = None"
    "lookup df ''Financial Loss (in Million $)'' = Some v"
  shows "\<exists>ls. map_result (apply_label loss_label) v = Inr ls \<and> lookup m ''Severity Level'' = Some ls"
proof -
  from assms(1) obtain m0 s1 s2 s3 where
    s: "ensure_timestamp L clk df = Inr m0"
    "ensure_ip_addresses (head_steps L (m0, g)) = Inr s1"
    "ensure_attack_signature L (middle_steps s1) = Inr s2"
    "ensure_severity_level s2 = Inr s3"
    "m = tail_steps L clk (fst s3)"
    by (rule build_mapped_cases)
  have e2: "extends early_cols df (fst s2)" by (rule extends_to_signature [OF s(1,2,3)])
  have l: "lookup (fst s2) ''Severity Level'' = None" "lookup (fst s2) ''attack_severity'' = None"
    "lookup (fst s2) ''Financial Loss (in Million $)'' = Some v"
    using extends_lookup [OF e2] not_early assms(2,3,4) by simp_all
  from ensure_severity_level_from_loss [OF s(4) l] obtain ls where
    ls: "map_result (apply_label loss_label) v = Inr ls" "lookup (fst s3) ''Severity Level'' = Some ls"
    by blast
  then have "has_col (fst s3) ''Severity Level''" by (simp add: has_col_lookup)
  then have "lookup m ''Severity Level'' = lookup (fst s3) ''Severity Level''"
    unfolding s(5) by (intro tail_steps_lookup_present) simp_all
  with ls show ?thesis by simp
qed


subsection \<open>Severity derived from a financial loss\<close>


lemma lower_labels:
  "str_lower ''Critical'' = ''critical''" "str_lower ''High'' = ''high''"
  "str_lower ''Medium'' = ''medium''" "str_lower ''Low'' = ''low''"
  "str_lower ''HIGH'' = ''high''" "str_lower ''low'' = ''low''" "str_lower ''none'' = ''none''"
  "str_lower ''nan'' = ''nan''"
  by code_simp+

lemma sev_labels:
  "sev_to_num ''critical'' = 9" "sev_to_num ''high'' = 7" "sev_to_num ''medium'' = 5"
  "sev_to_num ''low'' = 2"
  by (simp_all add: sev_to_num_def)

lemma map_global_schema_column:
  assumes "map_global_schema L clk df g = Inr out"
  obtains m where "build_mapped L clk df g = Inr m"
    "lookup out ''attack_severity'' = Some (std_attack_severity L m)"
    "lookup out ''timestamp'' = Some (map (to_datetime_coerce L (now_standardized clk)) (column m ''Timestamp''))"
    "lookup out ''industry'' = Some (std_industry m)"
proof -
  from assms obtain m where m: "build_mapped L clk df g = Inr m" "standardize L clk m = Inr out"
    by (rule map_global_schema_cases)
  from build_mapped_timestamp [OF m(1)] obtain v where v: "lookup m ''Timestamp'' = Some v" by blast
  then have ts: "std_timestamp L clk m = Inr (map (to_datetime_coerce L (now_standardized clk)) v)"
    by (simp add: std_timestamp_def)
  note out = m(2) [unfolded standardize_eq ts and_then_def sum.case, simplified, symmetric]
  show ?thesis
    by (rule that [OF m(1)]) (simp_all add: out lookup_def column_def v [unfolded lookup_def])
qed

text \<open>
  C1. On a table whose only column is Financial Loss (in Million $), with the losses 120,
  60, 20 and 5, the normalizer returns the severities 9, 7, 5 and 2: the loss 5 gives 2 and
  not 3. The missing Severity Level is first derived from the loss (Low for a loss of at
  most 10), and the numeric severity is then read from that label (low gives 2); the
  branch that maps the loss itself (\<open>loss_to_sev\<close>, otherwise 3) is never reached.
\<close>

theorem severity_of_small_loss:
  "result_column (map_global_schema L clk loss_table g) ''attack_severity'' =
     Some [IntV 9, IntV 7, IntV 5, IntV 2]"
proof -
  have ok: "timestamp_ok L loss_table" "ip_ok loss_table" "severity_ok loss_table"
    by (simp_all add: timestamp_ok_def ip_ok_def severity_ok_def loss_table_def has_col_def lookup_def)
  from map_global_schema_ok [OF ok] obtain out where
    out: "map_global_schema L clk loss_table g = Inr out" ..
  from out obtain m where m: "build_mapped L clk loss_table g = Inr m"
    and sev: "lookup out ''attack_severity'' = Some (std_attack_severity L m)"
    by (rule map_global_schema_column)
  have l: "lookup loss_table ''Severity Level'' = None" "lookup loss_table ''attack_severity'' = None"
    "lookup loss_table ''Financial Loss (in Million $)'' = Some [IntV 120, IntV 60, IntV 20, IntV 5]"
    by (simp_all add: loss_table_def lookup_def)
  from build_mapped_severity_from_loss [OF m l] have
    sl: "lookup m ''Severity Level'' = Some [StrV ''Critical'', StrV ''High'', StrV ''Medium'', StrV ''Low'']"
    by (auto simp: loss_label_def)
  have "lookup m ''attack_severity'' = None"
    using build_mapped_lookup_other [OF m, of "''attack_severity''"] l(2)
    by (simp add: CANONICAL_COLUMNS_def)
  then have "std_attack_severity L m = [IntV 9, IntV 7, IntV 5, IntV 2]"
    by (simp add: std_attack_severity_def sl lower_labels sev_labels)
  with out sev show ?thesis by simp
qed


subsection \<open>Severity supplied by the input\<close>


lemma not_canonical:
  "''attack_severity'' \<notin> set CANONICAL_COLUMNS" "''Industry'' \<notin> set CANONICAL_COLUMNS"
  by (simp_all add: CANONICAL_COLUMNS_def)

lemma fallback_eq:
  "\<not> has_col df ''Country'' \<Longrightarrow> \<not> has_col df ''Timestamp'' \<Longrightarrow>
     load_best_dataset L clk (Some df) g = map_global_schema L clk df g"
  by (simp add: load_best_dataset_def)

lemma canonical_table_timestamp:
  "result_column (load_best_dataset L clk (Some (canonical_table t)) g) ''timestamp'' =
     Some [TimeV (now_created clk)]"
proof -
  let ?df = "canonical_table t"
  have absent: "\<not> has_col ?df ''Country''" "\<not> has_col ?df ''Timestamp''" "lookup ?df ''Year'' = None"
    by (simp_all add: canonical_table_def has_col_def lookup_def)
  have ok: "timestamp_ok L ?df" "ip_ok ?df" "severity_ok ?df"
    by (simp_all add: timestamp_ok_def ip_ok_def severity_ok_def canonical_table_def has_col_def lookup_def)
  from map_global_schema_ok [OF ok] obtain out where
    out: "map_global_schema L clk ?df g = Inr out" ..
  from out obtain m where m: "build_mapped L clk ?df g = Inr m"
    and ts: "lookup out ''timestamp'' =
      Some (map (to_datetime_coerce L (now_standardized clk)) (column m ''Timestamp''))"
    by (rule map_global_schema_column)
  from build_mapped_timestamp [OF m] obtain v0 m0 where
    v0: "ensure_timestamp L clk ?df = Inr m0" "lookup m0 ''Timestamp'' = Some v0"
      "lookup m ''Timestamp'' = Some (map (to_datetime_coerce L (now_coerced clk)) v0)"
    by blast
  have "m0 = set_col ?df ''Timestamp'' (replicate (nrows ?df) (TimeV (now_created clk)))"
    using v0(1) ensure_timestamp_created [OF absent(2,3), of L clk] by simp
  then have "v0 = [TimeV (now_created clk)]"
    using v0(2) by (simp add: lookup_set_col canonical_table_def)
  then have "column m ''Timestamp'' = [TimeV (now_created clk)]"
    using v0(3) by (simp add: column_def)
  with ts out show ?thesis by (simp add: fallback_eq [OF absent(1,2)])
qed

lemma passes_through:
  assumes "map_global_schema L clk df g = Inr out"
  shows "\<exists>m. build_mapped L clk df g = Inr m \<and>
             lookup m ''attack_severity'' = lookup df ''attack_severity'' \<and>
             lookup m ''Industry'' = lookup df ''Industry'' \<and>
             lookup out ''attack_severity'' = Some (std_attack_severity L m) \<and>
             lookup out ''industry'' = Some (std_industry m)"
proof -
  from assms obtain m where m: "build_mapped L clk df g = Inr m"
    and c: "lookup out ''attack_severity'' = Some (std_attack_severity L m)"
      "lookup out ''industry'' = Some (std_industry m)"
    by (rule map_global_schema_column)
  have "lookup m ''attack_severity'' = lookup df ''attack_severity''"
    "lookup m ''Industry'' = lookup df ''Industry''"
    by (rule build_mapped_lookup_other [OF m]; simp add: not_canonical)+
  with m c show ?thesis by blast
qed

text \<open>
  C5 fails on a table that supplies its own numeric severity: the value 15 is returned as
  it is, outside the range from 1 to 10.
\<close>

theorem severity_not_clamped:
  "result_column (map_global_schema lib0 clk0 big_severity_table g0) ''attack_severity'' =
     Some [IntV 15] \<and> \<not> in_1_10 (IntV 15)"
proof -
  have ok: "timestamp_ok lib0 big_severity_table" "ip_ok big_severity_table"
    "severity_ok big_severity_table"
    by (simp_all add: timestamp_ok_def ip_ok_def severity_ok_def big_severity_table_def
        has_col_def lookup_def)
  from map_global_schema_ok [OF ok] obtain out where
    out: "map_global_schema lib0 clk0 big_severity_table g0 = Inr out" ..
  from passes_through [OF out] obtain m where
    m: "lookup m ''attack_severity'' = lookup big_severity_table ''attack_severity''"
      "lookup out ''attack_severity'' = Some (std_attack_severity lib0 m)"
    by blast
  have "lookup big_severity_table ''attack_severity'' = Some [IntV 15]"
    by (simp add: big_severity_table_def lookup_def)
  then have "lookup m ''attack_severity'' = Some [IntV 15]"
    by (simp add: m(1))
  then have "std_attack_severity lib0 m = [IntV 15]"
    by (simp add: std_attack_severity_def)
  with out m(2) show ?thesis by simp
qed

text \<open>
  C5, amended. Every table returned by \<^verbatim>\<open>map_global_schema\<close> has the column
  attack_severity. When the input has no attack_severity column of its own, every cell of
  it is an integer between 1 and 10. When the input supplies the column, each cell is the
  numeric reading of the input cell, 5 where there is none, and is not clamped.
\<close>

theorem severity_bound_derived:
  assumes "map_global_schema L clk df g = Inr out"
  shows "has_col out ''attack_severity'' \<and>
         (wf_table df \<longrightarrow> length (column out ''attack_severity'') = nrows df) \<and>
         (lookup df ''attack_severity'' = None \<longrightarrow> list_all in_1_10 (column out ''attack_severity'')) \<and>
         (\<forall>v. lookup df ''attack_severity'' = Some v \<longrightarrow>
              column out ''attack_severity'' = map (\<lambda>c. fillna (IntV 5) (to_numeric L c)) v)"
proof -
  from passes_through [OF assms] obtain m where
    m: "build_mapped L clk df g = Inr m"
      "lookup m ''attack_severity'' = lookup df ''attack_severity''"
      "lookup out ''attack_severity'' = Some (std_attack_severity L m)"
    by blast
  have c: "column out ''attack_severity'' = std_attack_severity L m"
    by (simp add: column_def m(3))
  have "length (std_attack_severity L m) = nrows df" if "wf_table df"
    using std_lengths(5) [OF build_mapped_wf [OF m(1) that]] build_mapped_nrows [OF m(1)] by simp
  moreover have "list_all in_1_10 (std_attack_severity L m)" if "lookup df ''attack_severity'' = None"
    by (rule std_attack_severity_range) (simp add: m(2) that)
  moreover have "std_attack_severity L m = map (\<lambda>c. fillna (IntV 5) (to_numeric L c)) v"
    if "lookup df ''attack_severity'' = Some v" for v
    using that by (simp add: std_attack_severity_def m(2))
  ultimately show ?thesis by (simp add: c has_col_lookup m(3))
qed

lemma loss_table_result:
  "\<exists>out. map_global_schema L clk loss_table g = Inr out"
  by (rule map_global_schema_ok)
    (simp_all add: timestamp_ok_def ip_ok_def severity_ok_def loss_table_def has_col_def lookup_def)

theorem severity_bound_derived_witness:
  "\<exists>out. map_global_schema lib0 clk0 loss_table g0 = Inr out \<and> wf_table loss_table \<and>
         lookup loss_table ''attack_severity'' = None \<and>
         length (column out ''attack_severity'') = 4 \<and>
         list_all in_1_10 (column out ''attack_severity'')"
proof -
  from loss_table_result obtain out where
    out: "map_global_schema lib0 clk0 loss_table g0 = Inr out" ..
  have h: "wf_table loss_table" "lookup loss_table ''attack_severity'' = None" "nrows loss_table = 4"
    by (simp_all add: loss_table_def wf_table_def lookup_def)
  from severity_bound_derived [OF out] h out show ?thesis by auto
qed


subsection \<open>Severity labels and schema detection\<close>


text \<open>
  C6. When the input has a Severity Level column and no attack_severity column, the
  severity of each row is \<open>sev_to_num\<close> of the lower-cased text of its label. That function
  tests the substrings critical, high, medium and low in this order and the first one found
  decides (9, 7, 5, 2), anything else gives 5; so Critical gives 9, a label that is the
  word high in any letter case gives 7, and a label containing both low and high gives 7.
\<close>

theorem categorical_severity_mapping:
  assumes "map_global_schema L clk df g = Inr out"
    and "lookup df ''attack_severity'' = None"
    and "lookup df ''Severity Level'' = Some labels"
  shows "column out ''attack_severity'' =
           map (\<lambda>c. IntV (sev_to_num (str_lower (astype_str L c)))) labels \<and>
         (\<forall>x. sev_to_num (str_lower x) =
            (if str_in ''critical'' (str_lower x) then 9
             else if str_in ''high'' (str_lower x) then 7
             else if str_in ''medium'' (str_lower x) then 5
             else if str_in ''low'' (str_lower x) then 2
             else 5)) \<and>
         sev_to_num (str_lower ''Critical'') = 9 \<and>
         (\<forall>x. str_lower x = ''high'' \<longrightarrow> sev_to_num (str_lower x) = 7) \<and>
         sev_to_num (str_lower ''Low to HIGH'') = 7"
proof -
  from passes_through [OF assms(1)] obtain m where
    m: "build_mapped L clk df g = Inr m"
      "lookup m ''attack_severity'' = lookup df ''attack_severity''"
      "lookup out ''attack_severity'' = Some (std_attack_severity L m)"
    by blast
  have "has_col df ''Severity Level''" by (simp add: has_col_lookup assms(3))
  then have "lookup m ''Severity Level'' = Some labels"
    using build_mapped_lookup_present [OF m(1), of "''Severity Level''"] assms(3) by simp
  then have "column out ''attack_severity'' =
      map (\<lambda>c. IntV (sev_to_num (str_lower (astype_str L c)))) labels"
    by (simp add: column_def m(3) std_attack_severity_def m(2) assms(2))
  moreover have "sev_to_num (str_lower ''Low to HIGH'') = 7"
  proof -
    have "str_lower ''Low to HIGH'' = ''low to high''" by code_simp
    then show ?thesis by (simp add: sev_to_num_def)
  qed
  ultimately show ?thesis
    by (simp add: lower_labels sev_labels) (simp add: sev_to_num_def)
qed

theorem categorical_severity_mapping_witness:
  "\<exists>out. map_global_schema lib0 clk0 label_table g0 = Inr out \<and>
         lookup label_table ''attack_severity'' = None \<and>
         lookup label_table ''Severity Level'' =
           Some [StrV ''Critical'', StrV ''HIGH'', StrV ''Medium'', StrV ''low'', StrV ''none''] \<and>
         column out ''attack_severity'' = [IntV 9, IntV 7, IntV 5, IntV 2, IntV 5]"
proof -
  have ok: "timestamp_ok lib0 label_table" "ip_ok label_table" "severity_ok label_table"
    by (simp_all add: timestamp_ok_def ip_ok_def severity_ok_def label_table_def has_col_def lookup_def)
  from map_global_schema_ok [OF ok] obtain out where
    out: "map_global_schema lib0 clk0 label_table g0 = Inr out" ..
  have h: "lookup label_table ''attack_severity'' = None"
    "lookup label_table ''Severity Level'' =
       Some [StrV ''Critical'', StrV ''HIGH'', StrV ''Medium'', StrV ''low'', StrV ''none'']"
    by (simp_all add: label_table_def lookup_def)
  have "sev_to_num ''none'' = 5" by (simp add: sev_to_num_def)
  with categorical_severity_mapping [OF out h] out h show ?thesis
    by (simp add: lower_labels sev_labels)
qed

lemma keys_set_col_present:
  "has_col m c \<Longrightarrow> map fst (columns (set_col m c v)) = map fst (columns m)"
  by (simp add: set_col_def has_col_def update_keys)

lemma coerce_timestamp_keys: "map fst (columns (coerce_timestamp L now c m)) = map fst (columns m)"
  by (auto simp: coerce_timestamp_def has_col_lookup keys_set_col_present split: option.splits)

text \<open>
  C7. The column set is examined in a fixed order. With a Country and a Financial Loss
  column the whole mapping chain runs, also when Timestamp and Attack Type are present.
  Otherwise, with Timestamp and Attack Type, the table is returned with its own columns and
  rows, every column but Timestamp untouched and Timestamp coerced to instants. Otherwise
  the same mapping chain runs as best effort.
\<close>

theorem schema_detection_priority:
  "(has_col df ''Country'' \<and> has_col df ''Financial Loss (in Million $)'' \<longrightarrow>
      load_best_dataset L clk (Some df) g = map_global_schema L clk df g) \<and>
   (\<not> (has_col df ''Country'' \<and> has_col df ''Financial Loss (in Million $)'') \<and>
    has_col df ''Timestamp'' \<and> has_col df ''Attack Type'' \<longrightarrow>
      (\<exists>out. load_best_dataset L clk (Some df) g = Inr out \<and>
             nrows out = nrows df \<and> map fst (columns out) = map fst (columns df) \<and>
             (\<forall>c. c \<noteq> ''Timestamp'' \<longrightarrow> lookup out c = lookup df c) \<and>
             lookup out ''Timestamp'' =
               map_option (map (to_datetime_coerce L (now_loaded clk))) (lookup df ''Timestamp''))) \<and>
   (\<not> (has_col df ''Country'' \<and> has_col df ''Financial Loss (in Million $)'') \<and>
    \<not> (has_col df ''Timestamp'' \<and> has_col df ''Attack Type'') \<longrightarrow>
      load_best_dataset L clk (Some df) g = map_global_schema L clk df g)"
  by (simp add: load_best_dataset_def coerce_timestamp_nrows coerce_timestamp_keys
      coerce_timestamp_lookup)

theorem schema_detection_priority_witness:
  "has_col global_table ''Country'' \<and> has_col global_table ''Financial Loss (in Million $)'' \<and>
   has_col global_table ''Timestamp'' \<and> has_col global_table ''Attack Type'' \<and>
   load_best_dataset lib0 clk0 (Some global_table) g0 = map_global_schema lib0 clk0 global_table g0 \<and>
   \<not> has_col canonical_like_table ''Country'' \<and>
   has_col canonical_like_table ''Timestamp'' \<and> has_col canonical_like_table ''Attack Type'' \<and>
   load_best_dataset lib0 clk0 (Some canonical_like_table) g0 =
     Inr \<lparr>nrows = 1, columns = [(''Timestamp'', [TimeV 1003]), (''Attack Type'', [StrV ''DDoS''])]\<rparr> \<and>
   \<not> has_col loss_table ''Country'' \<and> \<not> has_col loss_table ''Timestamp'' \<and>
   load_best_dataset lib0 clk0 (Some loss_table) g0 = map_global_schema lib0 clk0 loss_table g0"
proof -
  have g: "has_col global_table ''Country''" "has_col global_table ''Financial Loss (in Million $)''"
    "has_col global_table ''Timestamp''" "has_col global_table ''Attack Type''"
    by (simp_all add: global_table_def has_col_def)
  have c: "\<not> has_col canonical_like_table ''Country''"
    "has_col canonical_like_table ''Timestamp''" "has_col canonical_like_table ''Attack Type''"
    by (simp_all add: canonical_like_table_def has_col_def)
  have l: "\<not> has_col loss_table ''Country''" "\<not> has_col loss_table ''Timestamp''"
    by (simp_all add: loss_table_def has_col_def)
  have v: "coerce_timestamp lib0 (now_loaded clk0) ''Timestamp'' canonical_like_table =
      \<lparr>nrows = 1, columns = [(''Timestamp'', [TimeV 1003]), (''Attack Type'', [StrV ''DDoS''])]\<rparr>"
    by (simp add: coerce_timestamp_def canonical_like_table_def lookup_def set_col_def lib0_def clk0_def)
  from schema_detection_priority [of global_table lib0 clk0 g0]
    schema_detection_priority [of loss_table lib0 clk0 g0] g c l v
  show ?thesis by (simp add: load_best_dataset_def)
qed


subsection \<open>Empty input, and the shape of every output\<close>











subsection \<open>Columns the steps copy or draw\<close>


lemma head_steps_after_device:
  "extends {''Attack Type'', ''Anomaly Scores'', ''Packet Length'', ''Source Port'', ''Destination Port''}
     (fst (fill ''Device Information'' (choice_cells device_types) s)) (fst (head_steps L s))"
proof -
  let ?s1 = "fill ''Device Information'' (choice_cells device_types) s"
  note 2 = extends_ensure_attack_type [of ?s1]
  note 3 = extends_then_fill [OF 2 sized_anomaly_scores, of "''Anomaly Scores''" L]
  note 4 = extends_then_fill [OF 3 sized_randint_cells, of "''Packet Length''" 64 1500]
  note 5 = extends_then_fill [OF 4 sized_randint_cells, of "''Source Port''" 1024 65535]
  note 6 = extends_then_fill [OF 5 sized_destination_ports, of "''Destination Port''"]
  show ?thesis unfolding head_steps_def by (rule extends_mono [OF 6]) auto
qed

lemma head_steps_after_attack_type:
  "extends {''Anomaly Scores'', ''Packet Length'', ''Source Port'', ''Destination Port''}
     (fst (ensure_attack_type (fill ''Device Information'' (choice_cells device_types) s)))
     (fst (head_steps L s))"
proof -
  let ?s2 = "ensure_attack_type (fill ''Device Information'' (choice_cells device_types) s)"
  note 3 = extends_fill [OF sized_anomaly_scores, of "''Anomaly Scores''" ?s2 L]
  note 4 = extends_then_fill [OF 3 sized_randint_cells, of "''Packet Length''" 64 1500]
  note 5 = extends_then_fill [OF 4 sized_randint_cells, of "''Source Port''" 1024 65535]
  note 6 = extends_then_fill [OF 5 sized_destination_ports, of "''Destination Port''"]
  show ?thesis unfolding head_steps_def by (rule extends_mono [OF 6]) auto
qed

lemma middle_steps_after_action:
  "extends {''IDS/IPS Alerts'', ''Malware Indicators'', ''Firewall Logs'', ''Proxy Information''}
     (fst (ensure_action_taken (fill ''Protocol'' (choice_cells protocols) s)))
     (fst (middle_steps s))"
proof -
  let ?s2 = "ensure_action_taken (fill ''Protocol'' (choice_cells protocols) s)"
  note 3 = extends_fill [OF sized_choice_cells, of "''IDS/IPS Alerts''" ?s2 alert_types]
  note 4 = extends_then_fill [OF 3 sized_choice_cells, of "''Malware Indicators''" indicators]
  note 5 = extends_then_fill [OF 4 sized_choice_cells, of "''Firewall Logs''" log_types]
  note 6 = extends_then_fill [OF 5 sized_choice_cells, of "''Proxy Information''" proxy_info]
  show ?thesis unfolding middle_steps_def by (rule extends_mono [OF 6]) auto
qed

lemma extends_keeps: "extends T m m' \<Longrightarrow> lookup m c = Some v \<Longrightarrow> lookup m' c = Some v"
  using extends_lookup [of T m m' c] by (simp add: has_col_lookup)

lemma tail_steps_keeps:
  "lookup m c = Some v \<Longrightarrow> c \<noteq> ''Timestamp'' \<Longrightarrow> c \<noteq> ''Latitude'' \<Longrightarrow> c \<noteq> ''Longitude'' \<Longrightarrow>
     lookup (tail_steps L clk m) c = Some v"
  using tail_steps_lookup_present [of m c L clk] by (simp add: has_col_lookup)

lemma keptD:
  "kept m m' \<Longrightarrow> lookup m c = Some v \<Longrightarrow> c \<noteq> ''Timestamp'' \<Longrightarrow> c \<noteq> ''Latitude'' \<Longrightarrow>
     c \<noteq> ''Longitude'' \<Longrightarrow> lookup m' c = Some v"
  unfolding kept_def by blast

lemma kept_extends: "extends T m m' \<Longrightarrow> kept m' m'' \<Longrightarrow> kept m m''"
  unfolding kept_def by (blast intro: extends_keeps)

lemma kept_tail_steps: "kept m (tail_steps L clk m)"
  unfolding kept_def by (blast intro: tail_steps_keeps)

lemma build_mapped_trace:
  assumes "build_mapped L clk df g = Inr m"
  obtains m0 s1 where
    "ensure_timestamp L clk df = Inr m0"
    "extends {''Source IP Address'', ''Destination IP Address''} (fst (head_steps L (m0, g))) (fst s1)"
    "kept (fst (middle_steps s1)) m"
proof -
  from assms obtain m0 s1 s2 s3 where
    s: "ensure_timestamp L clk df = Inr m0"
    "ensure_ip_addresses (head_steps L (m0, g)) = Inr s1"
    "ensure_attack_signature L (middle_steps s1) = Inr s2"
    "ensure_severity_level s2 = Inr s3"
    "m = tail_steps L clk (fst s3)"
    by (rule build_mapped_cases)
  note e = extends_trans [OF extends_ensure_attack_signature [OF s(3)]
      extends_ensure_severity_level [OF s(4)]]
  have k: "kept (fst (middle_steps s1)) m"
    unfolding s(5) by (rule kept_extends [OF e kept_tail_steps])
  show ?thesis by (rule that [OF s(1) extends_ensure_ip_addresses [OF s(2)] k])
qed

lemma build_mapped_from_head:
  assumes "build_mapped L clk df g = Inr m"
  obtains m0 where "ensure_timestamp L clk df = Inr m0" "kept (fst (head_steps L (m0, g))) m"
proof -
  from assms obtain m0 s1 where
    t: "ensure_timestamp L clk df = Inr m0"
    "extends {''Source IP Address'', ''Destination IP Address''} (fst (head_steps L (m0, g))) (fst s1)"
    "kept (fst (middle_steps s1)) m"
    by (rule build_mapped_trace)
  have "kept (fst (head_steps L (m0, g))) m"
    by (rule kept_extends [OF t(2) kept_extends [OF extends_middle_steps t(3)]])
  with t(1) show ?thesis by (rule that)
qed

lemma build_mapped_device_information:
  assumes "build_mapped L clk df g = Inr m" "\<not> has_col df ''Device Information''"
  shows "lookup m ''Device Information'' = Some (fst (choice_cells device_types (nrows df) g))"
proof -
  from assms(1) obtain m0 where
    m0: "ensure_timestamp L clk df = Inr m0"
    and keep: "kept (fst (head_steps L (m0, g))) m"
    by (rule build_mapped_from_head)
  note e0 = extends_ensure_timestamp [OF m0]
  have "lookup m0 ''Device Information'' = lookup df ''Device Information''"
    by (rule extends_lookup [OF e0]) simp
  then have "\<not> has_col m0 ''Device Information''" using assms(2) by (simp add: has_col_lookup)
  then have "lookup (fst (fill ''Device Information'' (choice_cells device_types) (m0, g)))
      ''Device Information'' = Some (fst (choice_cells device_types (nrows df) g))"
    by (simp add: fill_def split_def Let_def lookup_set_col extends_nrows [OF e0])
  then have "lookup (fst (head_steps L (m0, g))) ''Device Information'' =
      Some (fst (choice_cells device_types (nrows df) g))"
    by (rule extends_keeps [OF head_steps_after_device])
  then show ?thesis by (rule keptD [OF keep]) simp_all
qed

lemma build_mapped_attack_type:
  assumes "build_mapped L clk df g = Inr m" "lookup df ''Attack Type'' = None"
    "lookup df ''attack_type'' = Some v"
  shows "lookup m ''Attack Type'' = Some v"
proof -
  from assms(1) obtain m0 where
    m0: "ensure_timestamp L clk df = Inr m0"
    and keep: "kept (fst (head_steps L (m0, g))) m"
    by (rule build_mapped_from_head)
  let ?s1 = "fill ''Device Information'' (choice_cells device_types) (m0, g)"
  have e1: "extends {''Device Information''} m0 (fst ?s1)"
    using extends_fill [OF sized_choice_cells, of "''Device Information''" "(m0, g)" device_types]
    by simp
  note e = extends_trans [OF extends_ensure_timestamp [OF m0] e1]
  have "lookup (fst ?s1) ''Attack Type'' = None" "lookup (fst ?s1) ''attack_type'' = Some v"
    using extends_lookup [OF e, of "''Attack Type''"] extends_lookup [OF e, of "''attack_type''"] assms(2,3)
    by simp_all
  then have "lookup (fst (ensure_attack_type ?s1)) ''Attack Type'' = Some v"
    by (simp add: ensure_attack_type_def split_def Let_def lookup_set_col)
  then have "lookup (fst (head_steps L (m0, g))) ''Attack Type'' = Some v"
    by (rule extends_keeps [OF head_steps_after_attack_type])
  then show ?thesis by (rule keptD [OF keep]) simp_all
qed

lemma build_mapped_action_taken:
  assumes "build_mapped L clk df g = Inr m" "lookup df ''Action Taken'' = None"
    "lookup df ''outcome'' = Some v"
  shows "lookup m ''Action Taken'' = Some v"
proof -
  from assms(1) obtain m0 s1 where
    t: "ensure_timestamp L clk df = Inr m0"
    "extends {''Source IP Address'', ''Destination IP Address''} (fst (head_steps L (m0, g))) (fst s1)"
    "kept (fst (middle_steps s1)) m"
    by (rule build_mapped_trace)
  let ?s = "fill ''Protocol'' (choice_cells protocols) s1"
  have eh: "extends head_cols m0 (fst (head_steps L (m0, g)))"
    using extends_head_steps [of "(m0, g)" L] by simp
  note e = extends_trans [OF extends_trans [OF extends_trans [OF extends_ensure_timestamp [OF t(1)] eh] t(2)]
      extends_fill [OF sized_choice_cells, of "''Protocol''" s1 protocols]]
  have "lookup (fst ?s) ''Action Taken'' = None" "lookup (fst ?s) ''outcome'' = Some v"
    using extends_lookup [OF e, of "''Action Taken''"] extends_lookup [OF e, of "''outcome''"] assms(2,3)
    by (simp_all add: head_cols_def)
  then have "lookup (fst (ensure_action_taken ?s)) ''Action Taken'' = Some v"
    by (simp add: ensure_action_taken_def split_def Let_def lookup_set_col has_col_lookup)
  then have "lookup (fst (middle_steps s1)) ''Action Taken'' = Some v"
    by (rule extends_keeps [OF middle_steps_after_action])
  then show ?thesis by (rule keptD [OF t(3)]) simp_all
qed


subsection \<open>Tables already in the canonical shape\<close>


lemma standardize_columns:
  assumes "standardize L clk m = Inr out"
  shows "column out ''attack_type'' = map (\<lambda>x. StrV (astype_str L x)) (std_attack_type m)"
    "column out ''target_system'' = map (\<lambda>x. StrV (astype_str L x)) (std_target_system m)"
    "column out ''location'' = map (\<lambda>x. StrV (astype_str L x)) (std_location m)"
    "column out ''industry'' = std_industry m"
    "column out ''attack_severity'' = std_attack_severity L m"
    "column out ''data_compromised_GB'' = std_data_compromised L m"
    "column out ''outcome'' = std_outcome L m"
    "column out ''mitigation_method'' = std_mitigation_method m"
    "column out ''attack_duration_min'' = std_attack_duration L m"
    "column out ''response_time_min'' = std_response_time L m"
    "column out ''security_tools_used'' = std_security_tools m"
    "column out ''user_role'' = std_user_role m"
proof -
  from assms obtain ts where ts: "std_timestamp L clk m = Inr ts"
    by (auto simp: standardize_eq and_then_def split: sum.splits)
  note out = assms [unfolded standardize_eq ts and_then_def sum.case, simplified, symmetric]
  show "column out ''attack_type'' = map (\<lambda>x. StrV (astype_str L x)) (std_attack_type m)"
    "column out ''target_system'' = map (\<lambda>x. StrV (astype_str L x)) (std_target_system m)"
    "column out ''location'' = map (\<lambda>x. StrV (astype_str L x)) (std_location m)"
    "column out ''industry'' = std_industry m"
    "column out ''attack_severity'' = std_attack_severity L m"
    "column out ''data_compromised_GB'' = std_data_compromised L m"
    "column out ''outcome'' = std_outcome L m"
    "column out ''mitigation_method'' = std_mitigation_method m"
    "column out ''attack_duration_min'' = std_attack_duration L m"
    "column out ''response_time_min'' = std_response_time L m"
    "column out ''security_tools_used'' = std_security_tools m"
    "column out ''user_role'' = std_user_role m"
    by (simp_all add: out column_def lookup_def)
qed

lemma astype_str_id: "list_all is_str v \<Longrightarrow> map (\<lambda>x. StrV (astype_str L x)) v = v"
proof (induction v)
  case Nil
  show ?case by simp
next
  case (Cons x v)
  then show ?case by (cases x) auto
qed

lemma to_numeric_id: "list_all is_num v \<Longrightarrow> map (\<lambda>c. fillna d (to_numeric L c)) v = v"
proof (induction v)
  case Nil
  show ?case by simp
next
  case (Cons x v)
  then show ?case by (cases x) auto
qed

lemma is_str_choice_cells: "list_all is_str (fst (choice_cells vocab n g))"
  by (simp add: choice_cells_def split_def Let_def list_all_iff)

lemma canonical_shape_absent:
  "canonical_shape df \<Longrightarrow> c \<notin> set canonical_fields \<Longrightarrow> lookup df c = None"
  by (auto simp: canonical_shape_def list_all_iff lookup_def map_of_eq_None_iff)

lemma canonical_shape_present:
  "canonical_shape df \<Longrightarrow> c \<in> set canonical_fields \<Longrightarrow> lookup df c = Some (column df c)"
  by (auto simp: canonical_shape_def list_all_iff column_def has_col_lookup)

lemma not_canonical_field:
  "''Country'' \<notin> set canonical_fields" "''Timestamp'' \<notin> set canonical_fields"
  "''Year'' \<notin> set canonical_fields" "''Attack Type'' \<notin> set canonical_fields"
  "''Device Information'' \<notin> set canonical_fields" "''Industry'' \<notin> set canonical_fields"
  "''Action Taken'' \<notin> set canonical_fields" "''Defense Mechanism Used'' \<notin> set canonical_fields"
  "''Defense Mechanism'' \<notin> set canonical_fields" "''Severity Level'' \<notin> set canonical_fields"
  "''Source IP Address'' \<notin> set canonical_fields" "''Destination IP Address'' \<notin> set canonical_fields"
  by (simp_all add: canonical_fields_def)

lemma is_num_comparable: "is_num c \<Longrightarrow> comparable c"
  by (cases c) auto

lemma canonical_shape_ok:
  assumes "canonical_shape df"
  shows "timestamp_ok L df" "ip_ok df" "severity_ok df"
proof -
  note a = canonical_shape_absent [OF assms]
  show "timestamp_ok L df" by (simp add: timestamp_ok_def a not_canonical_field)
  show "ip_ok df" by (simp add: ip_ok_def has_col_lookup a not_canonical_field)
  have "lookup df ''attack_severity'' = Some (column df ''attack_severity'')"
    by (rule canonical_shape_present [OF assms]) (simp add: canonical_fields_def)
  moreover have "list_all is_num (column df ''attack_severity'')"
    using assms by (simp add: canonical_shape_def)
  then have "list_all comparable (column df ''attack_severity'')"
    by (auto simp: list_all_iff intro: is_num_comparable)
  ultimately show "severity_ok df" by (simp add: severity_ok_def)
qed

lemma canonical_shape_fallback:
  "canonical_shape df \<Longrightarrow> load_best_dataset L clk (Some df) g = map_global_schema L clk df g"
  by (rule fallback_eq) (simp_all add: has_col_lookup canonical_shape_absent not_canonical_field)


subsection \<open>Normalizing a canonical table again\<close>


lemma canonical_shape_table: "canonical_shape (canonical_table (TimeV 5))"
  by (simp add: canonical_shape_def canonical_table_def wf_table_def has_col_def column_def
      lookup_def canonical_fields_def)

lemma first_device: "fst (choice_cells device_types (Suc 0) g0) = [StrV ''Network Sensor'']"
  by (simp add: choice_cells_def np_choice_def split_def Let_def next_raw_def g0_def device_types_def)

lemma canonical_target_system:
  assumes "canonical_shape df" "map_global_schema L clk df g = Inr out"
  shows "column out ''target_system'' = fst (choice_cells device_types (nrows df) g)"
proof -
  from assms(2) obtain m where m: "build_mapped L clk df g = Inr m" "standardize L clk m = Inr out"
    by (rule map_global_schema_cases)
  have "\<not> has_col df ''Device Information''"
    by (simp add: has_col_lookup canonical_shape_absent [OF assms(1)] not_canonical_field)
  from build_mapped_device_information [OF m(1) this]
  have "std_target_system m = fst (choice_cells device_types (nrows df) g)"
    by (simp add: std_target_system_def df_get_def as_series_def)
  then show ?thesis
    by (simp add: standardize_columns(2) [OF m(2)] astype_str_id is_str_choice_cells)
qed

text \<open>
  C3 fails on a record already in the canonical shape: its timestamp (here the instant 5)
  comes back as the clock reading taken when the column Timestamp was created, and its
  target system (here Web Server) as a device type drawn at random.
\<close>

theorem canonical_table_not_preserved:
  "canonical_shape (canonical_table (TimeV 5)) \<and>
   lookup (canonical_table (TimeV 5)) ''timestamp'' = Some [TimeV 5] \<and>
   result_column (load_best_dataset lib0 clk0 (Some (canonical_table (TimeV 5))) g0) ''timestamp'' =
     Some [TimeV 1000] \<and>
   lookup (canonical_table (TimeV 5)) ''target_system'' = Some [StrV ''Web Server''] \<and>
   result_column (load_best_dataset lib0 clk0 (Some (canonical_table (TimeV 5))) g0) ''target_system'' =
     Some [StrV ''Network Sensor'']"
proof -
  let ?df = "canonical_table (TimeV 5)"
  note c = canonical_shape_table
  have i: "lookup ?df ''timestamp'' = Some [TimeV 5]"
    "lookup ?df ''target_system'' = Some [StrV ''Web Server'']" "nrows ?df = 1"
    by (simp_all add: canonical_table_def lookup_def)
  have t: "result_column (load_best_dataset lib0 clk0 (Some ?df) g0) ''timestamp'' = Some [TimeV 1000]"
    by (simp add: canonical_table_timestamp clk0_def)
  from map_global_schema_ok [OF canonical_shape_ok [OF c]] obtain out where
    out: "map_global_schema lib0 clk0 ?df g0 = Inr out" ..
  from out obtain m where m: "build_mapped lib0 clk0 ?df g0 = Inr m" "standardize lib0 clk0 m = Inr out"
    by (rule map_global_schema_cases)
  have "''target_system'' \<in> set (map fst (columns out))"
    by (simp only: standardize_shape(1) [OF m(2)]) (simp add: canonical_fields_def)
  then have "has_col out ''target_system''" by (simp add: has_col_def)
  then have "lookup out ''target_system'' = Some (column out ''target_system'')"
    by (auto simp: has_col_lookup column_def)
  then have "lookup out ''target_system'' = Some [StrV ''Network Sensor'']"
    by (simp add: canonical_target_system [OF c out] i(3) first_device)
  with out have "result_column (load_best_dataset lib0 clk0 (Some ?df) g0) ''target_system'' =
      Some [StrV ''Network Sensor'']"
    by (simp add: canonical_shape_fallback [OF c])
  with c i t show ?thesis by simp
qed

text \<open>
  C3, amended. Normalizing a table already in the canonical shape returns, row by row, the
  input's attack_type, location, industry, attack_severity, data_compromised_GB,
  attack_duration_min, response_time_min, outcome, mitigation_method, security_tools_used
  and user_role; the target_system is not read from the input and is a device type drawn
  for each row. (Nothing is stated here about timestamp, attacker_ip and target_ip.)
\<close>

theorem canonical_fields_preserved:
  assumes "canonical_shape df" and "load_best_dataset L clk (Some df) g = Inr out"
  shows "column out ''attack_type'' = column df ''attack_type'' \<and>
         column out ''location'' = column df ''location'' \<and>
         column out ''industry'' = column df ''industry'' \<and>
         column out ''attack_severity'' = column df ''attack_severity'' \<and>
         column out ''data_compromised_GB'' = column df ''data_compromised_GB'' \<and>
         column out ''attack_duration_min'' = column df ''attack_duration_min'' \<and>
         column out ''response_time_min'' = column df ''response_time_min'' \<and>
         column out ''outcome'' = column df ''outcome'' \<and>
         column out ''mitigation_method'' = column df ''mitigation_method'' \<and>
         column out ''security_tools_used'' = column df ''security_tools_used'' \<and>
         column out ''user_role'' = column df ''user_role'' \<and>
         column out ''target_system'' = fst (choice_cells device_types (nrows df) g)"
proof -
  from assms have out: "map_global_schema L clk df g = Inr out"
    by (simp add: canonical_shape_fallback)
  from out obtain m where m: "build_mapped L clk df g = Inr m" "standardize L clk m = Inr out"
    by (rule map_global_schema_cases)
  note absent = canonical_shape_absent [OF assms(1)]
  note present = canonical_shape_present [OF assms(1)]
  note col = standardize_columns [OF m(2)]
  have other: "lookup m c = lookup df c"
    if "c \<notin> set CANONICAL_COLUMNS" "c \<noteq> ''Latitude''" "c \<noteq> ''Longitude''" for c
    by (rule build_mapped_lookup_other [OF m(1) that])
  have strs: "list_all is_str (column df ''attack_type'')" "list_all is_str (column df ''location'')"
    and nums: "list_all is_num (column df ''attack_severity'')"
      "list_all is_num (column df ''data_compromised_GB'')"
      "list_all is_num (column df ''attack_duration_min'')"
      "list_all is_num (column df ''response_time_min'')"
    using assms(1) by (simp_all add: canonical_shape_def)
  have "lookup m ''Attack Type'' = Some (column df ''attack_type'')"
    by (rule build_mapped_attack_type [OF m(1)])
      (simp_all add: absent present not_canonical_field canonical_fields_def)
  then have 1: "column out ''attack_type'' = column df ''attack_type''"
    by (simp add: col std_attack_type_def as_series_def astype_str_id strs)
  have "lookup m ''location'' = Some (column df ''location'')"
    by (simp add: other CANONICAL_COLUMNS_def present canonical_fields_def)
  then have 2: "column out ''location'' = column df ''location''"
    by (simp add: col std_location_def as_series_def astype_str_id strs)
  have "lookup m ''Industry'' = None" "lookup m ''industry'' = Some (column df ''industry'')"
    by (simp_all add: other CANONICAL_COLUMNS_def absent present canonical_fields_def)
  then have 3: "column out ''industry'' = column df ''industry''"
    by (simp add: col std_industry_def df_get_def as_series_def)
  have "lookup m ''attack_severity'' = Some (column df ''attack_severity'')"
    by (simp add: other CANONICAL_COLUMNS_def present canonical_fields_def)
  then have 4: "column out ''attack_severity'' = column df ''attack_severity''"
    by (simp add: col std_attack_severity_def to_numeric_id nums)
  have "lookup m ''data_compromised_GB'' = Some (column df ''data_compromised_GB'')"
    by (simp add: other CANONICAL_COLUMNS_def present canonical_fields_def)
  then have 5: "column out ''data_compromised_GB'' = column df ''data_compromised_GB''"
    by (simp add: col std_data_compromised_def to_numeric_id nums)
  have "lookup m ''attack_duration_min'' = Some (column df ''attack_duration_min'')"
    by (simp add: other CANONICAL_COLUMNS_def present canonical_fields_def)
  then have 6: "column out ''attack_duration_min'' = column df ''attack_duration_min''"
    by (simp add: col std_attack_duration_def df_get_def as_series_def to_numeric_id nums)
  have "lookup m ''response_time_min'' = Some (column df ''response_time_min'')"
    by (simp add: other CANONICAL_COLUMNS_def present canonical_fields_def)
  then have 7: "column out ''response_time_min'' = column df ''response_time_min''"
    by (simp add: col std_response_time_def df_get_def as_series_def to_numeric_id nums)
  have "lookup m ''Action Taken'' = Some (column df ''outcome'')"
    by (rule build_mapped_action_taken [OF m(1)])
      (simp_all add: absent present not_canonical_field canonical_fields_def)
  then have 8: "column out ''outcome'' = column df ''outcome''"
    by (simp add: col std_outcome_def as_series_def)
  have "lookup m ''Defense Mechanism Used'' = None" "lookup m ''Defense Mechanism'' = None"
    "lookup m ''mitigation_method'' = Some (column df ''mitigation_method'')"
    "lookup m ''security_tools_used'' = Some (column df ''security_tools_used'')"
    "lookup m ''user_role'' = Some (column df ''user_role'')"
    by (simp_all add: other CANONICAL_COLUMNS_def absent present canonical_fields_def)
  then have 9: "column out ''mitigation_method'' = column df ''mitigation_method''"
    "column out ''security_tools_used'' = column df ''security_tools_used''"
    "column out ''user_role'' = column df ''user_role''"
    by (simp_all add: col std_mitigation_method_def std_security_tools_def std_user_role_def
        df_get_def as_series_def)
  from 1 2 3 4 5 6 7 8 9 canonical_target_system [OF assms(1) out] show ?thesis by simp
qed

theorem canonical_fields_preserved_witness:
  "canonical_shape (canonical_table (TimeV 5)) \<and>
   (\<exists>out. load_best_dataset lib0 clk0 (Some (canonical_table (TimeV 5))) g0 = Inr out \<and>
          column out ''attack_type'' = [StrV ''DDoS''] \<and>
          column out ''attack_severity'' = [IntV 7] \<and>
          column out ''outcome'' = [StrV ''Mitigated''] \<and>
          column out ''user_role'' = [StrV ''Admin''] \<and>
          column out ''target_system'' = [StrV ''Network Sensor''])"
proof -
  let ?df = "canonical_table (TimeV 5)"
  note c = canonical_shape_table
  from map_global_schema_ok [OF canonical_shape_ok [OF c]] obtain out where
    "map_global_schema lib0 clk0 ?df g0 = Inr out" ..
  then have out: "load_best_dataset lib0 clk0 (Some ?df) g0 = Inr out"
    by (simp add: canonical_shape_fallback [OF c])
  have v: "column ?df ''attack_type'' = [StrV ''DDoS'']" "column ?df ''attack_severity'' = [IntV 7]"
    "column ?df ''outcome'' = [StrV ''Mitigated'']" "column ?df ''user_role'' = [StrV ''Admin'']"
    "nrows ?df = 1"
    by (simp_all add: canonical_table_def column_def lookup_def)
  from canonical_fields_preserved [OF c out] c out v first_device show ?thesis by auto
qed


subsection \<open>The substring test, and a call that raises\<close>


lemma starts_with_prefix: "starts_with p s \<longleftrightarrow> prefix p s"
  by (induction p s rule: starts_with.induct) auto

lemma str_in_sublist: "str_in sub s \<longleftrightarrow> sublist sub s"
  by (induction s) (auto simp: starts_with_prefix sublist_Cons_right)

lemma ensure_ip_addresses_raises:
  assumes "has_col (fst s) ''Source IP Address''" "\<not> has_col (fst s) ''Destination IP Address''"
    "nrows (fst s) \<noteq> 0"
  shows "ensure_ip_addresses s = Inl NameError"
  using assms by (simp add: ensure_ip_addresses_def fill_def split_def Let_def)

lemma missing_destination_raises:
  "map_global_schema L clk source_only_table g = Inl NameError"
proof -
  let ?df = "source_only_table"
  have a: "\<not> has_col ?df ''Timestamp''" "lookup ?df ''Year'' = None"
    "has_col ?df ''Source IP Address''" "lookup ?df ''Destination IP Address'' = None"
    "nrows ?df = 1"
    by (simp_all add: source_only_table_def has_col_def lookup_def)
  let ?m0 = "set_col ?df ''Timestamp'' (replicate (nrows ?df) (TimeV (now_created clk)))"
  have m0: "ensure_timestamp L clk ?df = Inr ?m0" by (rule ensure_timestamp_created [OF a(1,2)])
  have eh: "extends head_cols ?m0 (fst (head_steps L (?m0, g)))"
    using extends_head_steps [of "(?m0, g)" L] by simp
  have e: "extends ({''Timestamp''} \<union> head_cols) ?df (fst (head_steps L (?m0, g)))"
    by (rule extends_trans [OF extends_ensure_timestamp [OF m0] eh])
  have "has_col (fst (head_steps L (?m0, g))) ''Source IP Address''"
    by (rule extends_has_col [OF e a(3)])
  moreover have "lookup (fst (head_steps L (?m0, g))) ''Destination IP Address'' = None"
    using extends_lookup [OF e, of "''Destination IP Address''"] a(4) by (simp add: head_cols_def)
  moreover have "nrows (fst (head_steps L (?m0, g))) = 1"
    using extends_nrows [OF e] a(5) by simp
  ultimately have "ensure_ip_addresses (head_steps L (?m0, g)) = Inl NameError"
    by (intro ensure_ip_addresses_raises) (simp_all add: has_col_lookup)
  then show ?thesis
    by (simp add: map_global_schema_def build_mapped_def and_then_def m0)
qed

end
